theory Spec2Isabelle
  imports Main "HOL-Library.AList"
begin

section \<open>Python values, errors and the layout object model\<close>

text \<open>
  The module \<^verbatim>\<open>bokeh/layouts.py\<close> arranges layout objects into rows, columns and grids.
  Exceptions are values of \<open>py_error\<close>; a function that may raise returns
  \<open>py_error + 'a\<close> with \<open>Inl\<close> for the exception.
\<close>

datatype py_error = ValueError string | IndexError string | TypeError string

type_synonym ref = nat
type_synonym tool = string
type_synonym sizing = "string option"

text \<open>
  Modelled from the spec: the classes \<^verbatim>\<open>LayoutDOM\<close>, \<^verbatim>\<open>Plot\<close>, \<^verbatim>\<open>Row\<close>, \<^verbatim>\<open>Column\<close>,
  \<^verbatim>\<open>GridBox\<close>, \<^verbatim>\<open>ToolbarBox\<close> and \<^verbatim>\<open>ProxyToolbar\<close> are imported from \<^verbatim>\<open>bokeh.models\<close>.
  A layout node is a GUI element with a sizing mode; containers own an ordered sequence
  of child nodes; a toolbar proxy aggregates tool references and is owned by a toolbar
  container.

  Layout objects that exist before a call live in a store and are named by a reference
  (\<open>Obj r\<close>): the module mutates their attributes in place. Containers that the module
  itself constructs are fresh objects and are kept as values.
\<close>

record obj =
  is_Plot :: bool
  sizing_mode :: sizing
  toolbar_tools :: "tool list"
  toolbar_location :: "string option"
  plot_width :: int
  plot_height :: int
  select_Plot :: "ref list"

type_synonym store = "ref \<Rightarrow> obj"

datatype ProxyToolbar = ProxyToolbar (tools: "tool list") (options: "(string \<times> string) list")

datatype LayoutDOM =
    Obj ref
  | Row "LayoutDOM list" sizing
  | Column "LayoutDOM list" sizing
  | GridBox "(LayoutDOM \<times> nat \<times> nat) list" sizing
  | ToolbarBox ProxyToolbar string sizing

datatype 'v GridSpec =
  GridSpec (nrows: int) (ncols: int) (arrangement: "((int \<times> int) \<times> 'v) list")

datatype pyval =
    PNone
  | PInt int
  | PList "pyval list"
  | PDom LayoutDOM
  | PGridSpec "pyval GridSpec"

text \<open>Truth value of a Python object, as \<^verbatim>\<open>not children\<close> tests it.\<close>

fun py_truthy :: "pyval \<Rightarrow> bool" where
  "py_truthy PNone = False"
| "py_truthy (PInt n) = (n \<noteq> 0)"
| "py_truthy (PList xs) = (xs \<noteq> [])"
| "py_truthy (PDom d) = True"
| "py_truthy (PGridSpec g) = True"

fun is_list :: "pyval \<Rightarrow> bool" where
  "is_list (PList xs) = True"
| "is_list v = False"

text \<open>Subscription \<^verbatim>\<open>obj[i]\<close>: only lists are subscriptable; negative indices count
  from the end; out of range raises \<^verbatim>\<open>IndexError\<close>.\<close>

fun py_getitem :: "pyval \<Rightarrow> int \<Rightarrow> py_error + pyval" where
  "py_getitem (PList xs) i =
     (let n = int (length xs); j = (if i < 0 then i + n else i)
      in if 0 \<le> j \<and> j < n then Inr (xs ! nat j)
         else Inl (IndexError ''list index out of range''))"
| "py_getitem v i = Inl (TypeError ''object is not subscriptable'')"

text \<open>Item assignment \<^verbatim>\<open>xs[i] = v\<close> on a list.\<close>

definition py_list_set :: "'a list \<Rightarrow> int \<Rightarrow> 'a \<Rightarrow> py_error + 'a list" where
  "py_list_set xs i v =
     (let n = int (length xs); j = (if i < 0 then i + n else i)
      in if 0 \<le> j \<and> j < n then Inr (xs[nat j := v])
         else Inl (IndexError ''list assignment index out of range''))"

definition py_list_get :: "'a list \<Rightarrow> int \<Rightarrow> py_error + 'a" where
  "py_list_get xs i =
     (let n = int (length xs); j = (if i < 0 then i + n else i)
      in if 0 \<le> j \<and> j < n then Inr (xs ! nat j)
         else Inl (IndexError ''list index out of range''))"

text \<open>\<^verbatim>\<open>range(a, b)\<close> as the list of its values.\<close>

definition py_range :: "int \<Rightarrow> int \<Rightarrow> int list" where
  "py_range a b = [a..b - 1]"

text \<open>\<^verbatim>\<open>slice(start, stop, step).indices(len)\<close>, the built-in method.\<close>

definition slice_indices ::
  "int option \<Rightarrow> int option \<Rightarrow> int option \<Rightarrow> int \<Rightarrow> py_error + (int \<times> int \<times> int)" where
  "slice_indices start stop step len =
     (if len < 0 then Inl (ValueError ''length should not be negative'')
      else
        let st = (case step of None \<Rightarrow> 1 | Some k \<Rightarrow> k) in
        if st = 0 then Inl (ValueError ''slice step cannot be zero'')
        else
          let lower = (if st < 0 then - 1 else 0);
              upper = (if st < 0 then len - 1 else len);
              s = (case start of
                     None \<Rightarrow> (if st < 0 then upper else lower)
                   | Some a \<Rightarrow> (if a < 0 then max (a + len) lower else min a upper));
              e = (case stop of
                     None \<Rightarrow> (if st < 0 then lower else upper)
                   | Some b \<Rightarrow> (if b < 0 then max (b + len) lower else min b upper))
          in Inr (s, e, st))"

section \<open>GridSpec\<close>

datatype gs_key = Idx int | Slice "int option" "int option" "int option"

text \<open>\<^verbatim>\<open>GridSpec.__init__\<close>\<close>

definition GridSpec_init :: "int \<Rightarrow> int \<Rightarrow> pyval GridSpec" where
  "GridSpec_init nr nc = GridSpec nr nc []"

text \<open>The two key-resolution blocks of \<^verbatim>\<open>__setitem__\<close> (lines 332-348) are the same
  code on \<open>k1, nrows\<close> and on \<open>k2, ncols\<close>; \<open>resolve_key\<close> is that block. The second
  component is \<open>None\<close> for a scalar key, as \<^verbatim>\<open>row2\<close>/\<^verbatim>\<open>col2\<close> are in the source.\<close>

definition resolve_key :: "gs_key \<Rightarrow> int \<Rightarrow> py_error + (int \<times> int option)" where
  "resolve_key k n =
     (case k of
        Slice a b c \<Rightarrow>
          (case slice_indices a b c n of
             Inl e \<Rightarrow> Inl e
           | Inr (r1, r2, st) \<Rightarrow> Inr (r1, Some r2))
      | Idx i \<Rightarrow>
          (let i' = (if i < 0 then i + n else i)
           in if i' \<ge> n \<or> i' < 0 then Inl (IndexError ''index out of range'')
              else Inr (i', None)))"

definition get_or_else :: "py_error + pyval \<Rightarrow> pyval \<Rightarrow> py_error + pyval" where
  "get_or_else r dflt =
     (case r of Inl (IndexError m) \<Rightarrow> Inr dflt | Inl e \<Rightarrow> Inl e | Inr v \<Rightarrow> Inr v)"

text \<open>\<^verbatim>\<open>for col in range(col1, col2): self._arrangement[row1, col] = get_or_else(lambda: obj[col-col1], None)\<close>\<close>

fun fill_row ::
  "((int \<times> int) \<times> pyval) list \<Rightarrow> int \<Rightarrow> int \<Rightarrow> pyval \<Rightarrow> int list
     \<Rightarrow> py_error + ((int \<times> int) \<times> pyval) list" where
  "fill_row arr row1 col1 obj [] = Inr arr"
| "fill_row arr row1 col1 obj (col # cols) =
     (case get_or_else (py_getitem obj (col - col1)) PNone of
        Inl e \<Rightarrow> Inl e
      | Inr v \<Rightarrow> fill_row (AList.update (row1, col) v arr) row1 col1 obj cols)"

text \<open>\<^verbatim>\<open>for row in range(row1, row2): self._arrangement[row, col1] = get_or_else(lambda: obj[row-row1], None)\<close>\<close>

fun fill_col ::
  "((int \<times> int) \<times> pyval) list \<Rightarrow> int \<Rightarrow> int \<Rightarrow> pyval \<Rightarrow> int list
     \<Rightarrow> py_error + ((int \<times> int) \<times> pyval) list" where
  "fill_col arr row1 col1 obj [] = Inr arr"
| "fill_col arr row1 col1 obj (row # rows) =
     (case get_or_else (py_getitem obj (row - row1)) PNone of
        Inl e \<Rightarrow> Inl e
      | Inr v \<Rightarrow> fill_col (AList.update (row, col1) v arr) row1 col1 obj rows)"

text \<open>\<^verbatim>\<open>obj[row-row1][col-col1]\<close>\<close>

definition getitem2 :: "pyval \<Rightarrow> int \<Rightarrow> int \<Rightarrow> py_error + pyval" where
  "getitem2 obj i j = (case py_getitem obj i of Inl e \<Rightarrow> Inl e | Inr r \<Rightarrow> py_getitem r j)"

text \<open>\<^verbatim>\<open>for row, col in zip(range(row1, row2), range(col1, col2)): ...\<close>\<close>

fun fill_zip ::
  "((int \<times> int) \<times> pyval) list \<Rightarrow> int \<Rightarrow> int \<Rightarrow> pyval \<Rightarrow> (int \<times> int) list
     \<Rightarrow> py_error + ((int \<times> int) \<times> pyval) list" where
  "fill_zip arr row1 col1 obj [] = Inr arr"
| "fill_zip arr row1 col1 obj ((row, col) # rest) =
     (case get_or_else (getitem2 obj (row - row1) (col - col1)) PNone of
        Inl e \<Rightarrow> Inl e
      | Inr v \<Rightarrow> fill_zip (AList.update (row, col) v arr) row1 col1 obj rest)"

text \<open>\<^verbatim>\<open>GridSpec.__setitem__\<close>; the dictionary \<^verbatim>\<open>_arrangement\<close> is an association
  list with one entry per key, in insertion order.\<close>

definition GridSpec_setitem ::
  "pyval GridSpec \<Rightarrow> gs_key \<times> gs_key \<Rightarrow> pyval \<Rightarrow> py_error + pyval GridSpec" where
  "GridSpec_setitem self key obj =
     (case key of (k1, k2) \<Rightarrow>
        (case resolve_key k1 (nrows self) of
           Inl e \<Rightarrow> Inl e
         | Inr (row1, row2) \<Rightarrow>
             (case resolve_key k2 (ncols self) of
                Inl e \<Rightarrow> Inl e
              | Inr (col1, col2) \<Rightarrow>
                  (case (row2, col2) of
                     (None, None) \<Rightarrow>
                       Inr (GridSpec (nrows self) (ncols self)
                              (AList.update (row1, col1) obj (arrangement self)))
                   | (None, Some c2) \<Rightarrow>
                       (case fill_row (arrangement self) row1 col1 obj (py_range col1 c2) of
                          Inl e \<Rightarrow> Inl e
                        | Inr arr \<Rightarrow> Inr (GridSpec (nrows self) (ncols self) arr))
                   | (Some r2, None) \<Rightarrow>
                       (case fill_col (arrangement self) row1 col1 obj (py_range row1 r2) of
                          Inl e \<Rightarrow> Inl e
                        | Inr arr \<Rightarrow> Inr (GridSpec (nrows self) (ncols self) arr))
                   | (Some r2, Some c2) \<Rightarrow>
                       (case fill_zip (arrangement self) row1 col1 obj
                               (zip (py_range row1 r2) (py_range col1 c2)) of
                          Inl e \<Rightarrow> Inl e
                        | Inr arr \<Rightarrow> Inr (GridSpec (nrows self) (ncols self) arr))))))"

text \<open>\<^verbatim>\<open>array[row][col] = obj\<close>\<close>

definition set2d :: "'a list list \<Rightarrow> int \<Rightarrow> int \<Rightarrow> 'a \<Rightarrow> py_error + 'a list list" where
  "set2d array row col v =
     (case py_list_get array row of
        Inl e \<Rightarrow> Inl e
      | Inr r \<Rightarrow>
          (case py_list_set r col v of
             Inl e \<Rightarrow> Inl e
           | Inr r' \<Rightarrow> py_list_set array row r'))"

fun fill_array ::
  "((int \<times> int) \<times> 'a) list \<Rightarrow> 'a list list \<Rightarrow> py_error + 'a list list" where
  "fill_array [] array = Inr array"
| "fill_array (((row, col), v) # rest) array =
     (case set2d array row col v of
        Inl e \<Rightarrow> Inl e
      | Inr array' \<Rightarrow> fill_array rest array')"

text \<open>\<^verbatim>\<open>GridSpec.__iter__\<close>: the list the returned iterator runs over.\<close>

definition GridSpec_iter :: "pyval GridSpec \<Rightarrow> py_error + pyval list list" where
  "GridSpec_iter self =
     fill_array (arrangement self)
       (replicate (nat (nrows self)) (replicate (nat (ncols self)) PNone))"

section \<open>Iteration and the children normalizer\<close>

text \<open>\<^verbatim>\<open>for item in v\<close>: the items a Python value yields. Lists yield their elements, a
  \<^verbatim>\<open>GridSpec\<close> yields the rows built by \<^verbatim>\<open>__iter__\<close>; nothing else is iterable.\<close>

definition py_iter :: "pyval \<Rightarrow> py_error + pyval list" where
  "py_iter v =
     (case v of
        PList xs \<Rightarrow> Inr xs
      | PGridSpec g \<Rightarrow>
          (case GridSpec_iter g of Inl e \<Rightarrow> Inl e | Inr array \<Rightarrow> Inr (map PList array))
      | PNone \<Rightarrow> Inl (TypeError ''object is not iterable'')
      | PInt n \<Rightarrow> Inl (TypeError ''object is not iterable'')
      | PDom d \<Rightarrow> Inl (TypeError ''object is not iterable''))"

text \<open>\<^verbatim>\<open>_handle_children(*args, **kwargs)\<close>; \<open>children\<close> is the keyword argument,
  \<open>PNone\<close> when it is absent.\<close>

definition handle_children :: "pyval list \<Rightarrow> pyval \<Rightarrow> py_error + pyval" where
  "handle_children args children =
     (if length args > 0 \<and> children \<noteq> PNone
      then Inl (ValueError ''children keyword cannot be used with positional arguments'')
      else if \<not> py_truthy children then
        (case args of
           [PList xs] \<Rightarrow> Inr (PList xs)
         | [PGridSpec g] \<Rightarrow> Inr (PGridSpec g)
         | _ \<Rightarrow> Inr (PList args))
      else Inr children)"

section \<open>row, column, layout\<close>

text \<open>The loop shared by \<^verbatim>\<open>row\<close> and \<^verbatim>\<open>column\<close>: every item must be a \<^verbatim>\<open>LayoutDOM\<close>,
  the first one that is not raises \<^verbatim>\<open>ValueError\<close> with the caller's message.\<close>

fun only_LayoutDOM :: "string \<Rightarrow> pyval list \<Rightarrow> py_error + LayoutDOM list" where
  "only_LayoutDOM msg [] = Inr []"
| "only_LayoutDOM msg (item # items) =
     (case item of
        PDom d \<Rightarrow>
          (case only_LayoutDOM msg items of Inl e \<Rightarrow> Inl e | Inr ds \<Rightarrow> Inr (d # ds))
      | PNone \<Rightarrow> Inl (ValueError msg)
      | PInt n \<Rightarrow> Inl (ValueError msg)
      | PList xs \<Rightarrow> Inl (ValueError msg)
      | PGridSpec g \<Rightarrow> Inl (ValueError msg))"

definition row :: "pyval list \<Rightarrow> pyval \<Rightarrow> sizing \<Rightarrow> py_error + LayoutDOM" where
  "row args children mode =
     (case handle_children args children of
        Inl e \<Rightarrow> Inl e
      | Inr ch \<Rightarrow>
          (case py_iter ch of
             Inl e \<Rightarrow> Inl e
           | Inr items \<Rightarrow>
               (case only_LayoutDOM ''Only LayoutDOM items can be inserted into a row'' items of
                  Inl e \<Rightarrow> Inl e
                | Inr row_children \<Rightarrow> Inr (Row row_children mode))))"

definition column :: "pyval list \<Rightarrow> pyval \<Rightarrow> sizing \<Rightarrow> py_error + LayoutDOM" where
  "column args children mode =
     (case handle_children args children of
        Inl e \<Rightarrow> Inl e
      | Inr ch \<Rightarrow>
          (case py_iter ch of
             Inl e \<Rightarrow> Inl e
           | Inr items \<Rightarrow>
               (case only_LayoutDOM ''Only LayoutDOM items can be inserted into a column'' items of
                  Inl e \<Rightarrow> Inl e
                | Inr col_children \<Rightarrow> Inr (Column col_children mode))))"

definition widgetbox :: "pyval list \<Rightarrow> pyval \<Rightarrow> sizing \<Rightarrow> py_error + LayoutDOM" where
  "widgetbox args children mode = column args children mode"

text \<open>\<^verbatim>\<open>item.sizing_mode = sizing_mode\<close>: on an object of the store the attribute is
  written in place.\<close>

fun set_sizing_mode :: "LayoutDOM \<Rightarrow> sizing \<Rightarrow> store \<Rightarrow> LayoutDOM \<times> store" where
  "set_sizing_mode (Obj r) mode s = (Obj r, s(r := (s r)\<lparr>sizing_mode := mode\<rparr>))"
| "set_sizing_mode (Row cs m) mode s = (Row cs mode, s)"
| "set_sizing_mode (Column cs m) mode s = (Column cs mode, s)"
| "set_sizing_mode (GridBox cs m) mode s = (GridBox cs mode, s)"
| "set_sizing_mode (ToolbarBox p l m) mode s = (ToolbarBox p l mode, s)"

text \<open>\<^verbatim>\<open>_create_grid(iterable, sizing_mode, layer)\<close> on the items of \<open>iterable\<close>;
  \<open>create_grid_loop\<close> is its \<^verbatim>\<open>for item in iterable\<close> loop building \<^verbatim>\<open>return_list\<close>.\<close>

fun create_grid :: "pyval list \<Rightarrow> sizing \<Rightarrow> nat \<Rightarrow> store \<Rightarrow> py_error + (LayoutDOM \<times> store)"
  and create_grid_loop ::
    "pyval list \<Rightarrow> sizing \<Rightarrow> nat \<Rightarrow> store \<Rightarrow> py_error + (LayoutDOM list \<times> store)" where
  "create_grid iterable mode layer s =
     (case create_grid_loop iterable mode layer s of
        Inl e \<Rightarrow> Inl e
      | Inr (return_list, s') \<Rightarrow>
          (case (if layer mod 2 = 0 then column [] (PList (map PDom return_list)) mode
                 else row [] (PList (map PDom return_list)) mode) of
             Inl e \<Rightarrow> Inl e
           | Inr t \<Rightarrow> Inr (t, s')))"
| "create_grid_loop [] mode layer s = Inr ([], s)"
| "create_grid_loop (item # rest) mode layer s =
     (case item of
        PList xs \<Rightarrow>
          (case create_grid xs mode (layer + 1) s of
             Inl e \<Rightarrow> Inl e
           | Inr (t, s1) \<Rightarrow>
               (case create_grid_loop rest mode layer s1 of
                  Inl e \<Rightarrow> Inl e
                | Inr (ts, s2) \<Rightarrow> Inr (t # ts, s2)))
      | PDom d \<Rightarrow>
          (case set_sizing_mode d mode s of
             (d', s1) \<Rightarrow>
               (case create_grid_loop rest mode layer s1 of
                  Inl e \<Rightarrow> Inl e
                | Inr (ts, s2) \<Rightarrow> Inr (d' # ts, s2)))
      | PNone \<Rightarrow> Inl (ValueError ''Only LayoutDOM items can be inserted into a layout'')
      | PInt n \<Rightarrow> Inl (ValueError ''Only LayoutDOM items can be inserted into a layout'')
      | PGridSpec g \<Rightarrow> Inl (ValueError ''Only LayoutDOM items can be inserted into a layout''))"

definition layout :: "pyval list \<Rightarrow> pyval \<Rightarrow> sizing \<Rightarrow> store \<Rightarrow> py_error + (LayoutDOM \<times> store)" where
  "layout args children mode s =
     (case handle_children args children of
        Inl e \<Rightarrow> Inl e
      | Inr ch \<Rightarrow>
          (case py_iter ch of
             Inl e \<Rightarrow> Inl e
           | Inr items \<Rightarrow> create_grid items mode 0 s))"

section \<open>gridplot\<close>

text \<open>Modelled from the spec: \<^verbatim>\<open>hasattr(Location, name)\<close>, for the enumeration
  \<^verbatim>\<open>Location\<close> of \<^verbatim>\<open>bokeh.core.enums\<close>; the toolbar placements are above, below, left
  and right.\<close>

definition Location_has :: "string \<Rightarrow> bool" where
  "Location_has name = (name \<in> set [''above'', ''below'', ''left'', ''right''])"

text \<open>\<^verbatim>\<open>_chunks(l, ncols)\<close>: \<^verbatim>\<open>l[i: i+ncols]\<close> for \<^verbatim>\<open>i in range(0, len(l), ncols)\<close>. A
  negative step gives an empty range, a zero step is refused by \<^verbatim>\<open>range\<close>.\<close>

definition chunks :: "'a list \<Rightarrow> int \<Rightarrow> py_error + 'a list list" where
  "chunks l n =
     (if n = 0 then Inl (ValueError ''range() arg 3 must not be zero'')
      else if n < 0 then Inr []
      else Inr (map (\<lambda>k. take (nat n) (drop (k * nat n) l))
                  [0..<(length l + nat n - 1) div nat n]))"

text \<open>Modelled from the spec: \<^verbatim>\<open>item.select(dict(type=Plot))\<close>, a method of
  \<^verbatim>\<open>bokeh.model.Model\<close>, gives the plots among an item and its descendants. For an
  object of the store it is the object's \<open>select_Plot\<close>; for a container value it is
  the plots of its children in order.\<close>

fun select_plots :: "store \<Rightarrow> LayoutDOM \<Rightarrow> ref list" where
  "select_plots s (Obj r) = select_Plot (s r)"
| "select_plots s (Row cs m) = concat (map (select_plots s) cs)"
| "select_plots s (Column cs m) = concat (map (select_plots s) cs)"
| "select_plots s (GridBox cs m) = concat (map (\<lambda>t. select_plots s (fst t)) cs)"
| "select_plots s (ToolbarBox p l m) = []"

text \<open>\<^verbatim>\<open>for plot in ...: tools += plot.toolbar.tools; plot.toolbar_location = None\<close>\<close>

fun merge_plots :: "ref list \<Rightarrow> tool list \<times> store \<Rightarrow> tool list \<times> store" where
  "merge_plots [] (tools_list, s) = (tools_list, s)"
| "merge_plots (plot # plots) (tools_list, s) =
     merge_plots plots
       (tools_list @ toolbar_tools (s plot), s(plot := (s plot)\<lparr>toolbar_location := None\<rparr>))"

text \<open>\<^verbatim>\<open>if isinstance(item, Plot): ...\<close>, the size overrides.\<close>

fun set_plot_size :: "LayoutDOM \<Rightarrow> int option \<Rightarrow> int option \<Rightarrow> store \<Rightarrow> store" where
  "set_plot_size (Obj r) w h s =
     (if is_Plot (s r) then
        (let s1 = (case w of None \<Rightarrow> s | Some pw \<Rightarrow> s(r := (s r)\<lparr>plot_width := pw\<rparr>));
             s2 = (case h of None \<Rightarrow> s1 | Some ph \<Rightarrow> s1(r := (s1 r)\<lparr>plot_height := ph\<rparr>))
         in s2)
      else s)"
| "set_plot_size d w h s = s"

type_synonym grid_acc = "tool list \<times> (LayoutDOM \<times> nat \<times> nat) list \<times> store"

text \<open>\<^verbatim>\<open>for x, item in enumerate(row): ...\<close>\<close>

fun grid_row ::
  "bool \<Rightarrow> int option \<Rightarrow> int option \<Rightarrow> nat \<Rightarrow> nat \<Rightarrow> pyval list \<Rightarrow> grid_acc
     \<Rightarrow> py_error + grid_acc" where
  "grid_row merge_tools w h y x [] acc = Inr acc"
| "grid_row merge_tools w h y x (item # rest) (tools_list, items, s) =
     (case item of
        PNone \<Rightarrow> grid_row merge_tools w h y (Suc x) rest (tools_list, items, s)
      | PDom d \<Rightarrow>
          (case (if merge_tools then merge_plots (select_plots s d) (tools_list, s)
                 else (tools_list, s)) of
             (tools1, s1) \<Rightarrow>
               grid_row merge_tools w h y (Suc x) rest
                 (tools1, items @ [(d, y, x)], set_plot_size d w h s1))
      | PInt n \<Rightarrow> Inl (ValueError ''Only LayoutDOM items can be inserted into a grid'')
      | PList xs \<Rightarrow> Inl (ValueError ''Only LayoutDOM items can be inserted into a grid'')
      | PGridSpec g \<Rightarrow> Inl (ValueError ''Only LayoutDOM items can be inserted into a grid''))"

text \<open>\<^verbatim>\<open>for y, row in enumerate(children): ...\<close>\<close>

fun grid_rows ::
  "bool \<Rightarrow> int option \<Rightarrow> int option \<Rightarrow> nat \<Rightarrow> pyval list \<Rightarrow> grid_acc
     \<Rightarrow> py_error + grid_acc" where
  "grid_rows merge_tools w h y [] acc = Inr acc"
| "grid_rows merge_tools w h y (r # rows) acc =
     (case py_iter r of
        Inl e \<Rightarrow> Inl e
      | Inr cells \<Rightarrow>
          (case grid_row merge_tools w h y 0 cells acc of
             Inl e \<Rightarrow> Inl e
           | Inr acc' \<Rightarrow> grid_rows merge_tools w h (Suc y) rows acc'))"

text \<open>\<^verbatim>\<open>if ncols: ...\<close> (lines 269-272)\<close>

definition apply_ncols :: "pyval \<Rightarrow> int option \<Rightarrow> py_error + pyval" where
  "apply_ncols children n_cols =
     (case n_cols of
        None \<Rightarrow> Inr children
      | Some n \<Rightarrow>
          if n = 0 then Inr children
          else
            (case py_iter children of
               Inl e \<Rightarrow> Inl e
             | Inr cs \<Rightarrow>
                 if list_ex is_list cs
                 then Inl (ValueError ''Cannot provide a nested list when using ncols'')
                 else
                   (case children of
                      PList l \<Rightarrow>
                        (case chunks l n of
                           Inl e \<Rightarrow> Inl e
                         | Inr cks \<Rightarrow> Inr (PList (map PList cks)))
                    | PNone \<Rightarrow> Inl (TypeError ''object has no len()'')
                    | PInt k \<Rightarrow> Inl (TypeError ''object has no len()'')
                    | PDom d \<Rightarrow> Inl (TypeError ''object has no len()'')
                    | PGridSpec g \<Rightarrow> Inl (TypeError ''object has no len()''))))"

text \<open>The \<^verbatim>\<open>return\<close> statements of \<^verbatim>\<open>gridplot\<close> (lines 301-315). A call that falls off
  the end of the function returns \<^verbatim>\<open>None\<close>.\<close>

definition wrap_grid ::
  "tool list \<Rightarrow> (LayoutDOM \<times> nat \<times> nat) list \<Rightarrow> sizing \<Rightarrow> string option \<Rightarrow>
     (string \<times> string) list \<Rightarrow> bool \<Rightarrow> pyval" where
  "wrap_grid tools_list items mode toolbar_loc opts merge_tools =
     (case toolbar_loc of
        None \<Rightarrow> PDom (GridBox items mode)
      | Some l \<Rightarrow>
          if \<not> merge_tools \<or> l = [] then PDom (GridBox items mode)
          else
            (let grid = GridBox items None;
                 proxy = ProxyToolbar tools_list opts;
                 toolbar = ToolbarBox proxy l None
             in if l = ''above'' then PDom (Column [toolbar, grid] mode)
                else if l = ''below'' then PDom (Column [grid, toolbar] mode)
                else if l = ''left'' then PDom (Row [toolbar, grid] mode)
                else if l = ''right'' then PDom (Row [grid, toolbar] mode)
                else PNone))"

definition gridplot ::
  "pyval \<Rightarrow> sizing \<Rightarrow> string option \<Rightarrow> int option \<Rightarrow> int option \<Rightarrow> int option \<Rightarrow>
     (string \<times> string) list option \<Rightarrow> bool \<Rightarrow> store \<Rightarrow> py_error + (pyval \<times> store)" where
  "gridplot children mode toolbar_loc n_cols w h toolbar_options merge_tools s =
     (let opts = (case toolbar_options of None \<Rightarrow> [] | Some d \<Rightarrow> d) in
      if (case toolbar_loc of None \<Rightarrow> False | Some l \<Rightarrow> l \<noteq> [] \<and> \<not> Location_has l)
      then Inl (ValueError ''Invalid value of toolbar_location'')
      else
        (case handle_children [] children of
           Inl e \<Rightarrow> Inl e
         | Inr ch \<Rightarrow>
             (case apply_ncols ch n_cols of
                Inl e \<Rightarrow> Inl e
              | Inr ch1 \<Rightarrow>
                  (case py_iter (if \<not> py_truthy ch1 then PList [] else ch1) of
                     Inl e \<Rightarrow> Inl e
                   | Inr rows \<Rightarrow>
                       (case grid_rows merge_tools w h 0 rows ([], [], s) of
                          Inl e \<Rightarrow> Inl e
                        | Inr (tools_list, items, s') \<Rightarrow>
                            Inr (wrap_grid tools_list items mode toolbar_loc opts merge_tools,
                                 s'))))))"

section \<open>Specification vocabulary\<close>

text \<open>The state invariant of a \<^verbatim>\<open>GridSpec\<close>: the dictionary has one entry per key, and
  every stored coordinate lies inside the declared grid.\<close>

definition wf_GridSpec :: "'v GridSpec \<Rightarrow> bool" where
  "wf_GridSpec g =
     (distinct (map fst (arrangement g)) \<and>
      (\<forall>k \<in> set (map fst (arrangement g)).
         0 \<le> fst k \<and> fst k < nrows g \<and> 0 \<le> snd k \<and> snd k < ncols g))"



text \<open>Keys whose slices run forwards: a scalar index, or a slice whose step is absent or
  positive.\<close>

fun forward :: "gs_key \<Rightarrow> bool" where
  "forward (Idx i) = True"
| "forward (Slice a b None) = True"
| "forward (Slice a b (Some k)) = (0 < k)"

text \<open>A valid nested list of layout objects: a leaf is an existing \<^verbatim>\<open>LayoutDOM\<close> object,
  a node is a Python list. \<open>to_py\<close> is the Python value, \<open>leaves\<close> the objects from left
  to right.\<close>

datatype nested = Leaf ref | Nest "nested list"

fun to_py :: "nested \<Rightarrow> pyval" where
  "to_py (Leaf r) = PDom (Obj r)"
| "to_py (Nest ns) = PList (map to_py ns)"

fun leaves :: "nested \<Rightarrow> ref list" where
  "leaves (Leaf r) = [r]"
| "leaves (Nest ns) = concat (map leaves ns)"

text \<open>The tree the specification describes: a list at even nesting depth becomes a
  column, a list at odd depth a row, every container carrying the one sizing mode.\<close>

fun alternating :: "nat \<Rightarrow> sizing \<Rightarrow> nested \<Rightarrow> LayoutDOM" where
  "alternating depth mode (Leaf r) = Obj r"
| "alternating depth mode (Nest ns) =
     (if even depth then Column (map (alternating (Suc depth) mode) ns) mode
      else Row (map (alternating (Suc depth) mode) ns) mode)"

text \<open>The store objects at the leaves of a tree, left to right; and the property that
  every node of a tree, generated container or leaf object, carries a sizing mode.\<close>

fun tree_refs :: "LayoutDOM \<Rightarrow> ref list" where
  "tree_refs (Obj r) = [r]"
| "tree_refs (Row cs m) = concat (map tree_refs cs)"
| "tree_refs (Column cs m) = concat (map tree_refs cs)"
| "tree_refs (GridBox cs m) = concat (map (\<lambda>t. tree_refs (fst t)) cs)"
| "tree_refs (ToolbarBox p l m) = []"

fun nodes_sized :: "sizing \<Rightarrow> store \<Rightarrow> LayoutDOM \<Rightarrow> bool" where
  "nodes_sized mode s (Obj r) = (sizing_mode (s r) = mode)"
| "nodes_sized mode s (Row cs m) = (m = mode \<and> (\<forall>c \<in> set cs. nodes_sized mode s c))"
| "nodes_sized mode s (Column cs m) = (m = mode \<and> (\<forall>c \<in> set cs. nodes_sized mode s c))"
| "nodes_sized mode s (GridBox cs m) = (m = mode \<and> (\<forall>t \<in> set cs. nodes_sized mode s (fst t)))"
| "nodes_sized mode s (ToolbarBox p l m) = (m = mode)"

text \<open>The store after \<^verbatim>\<open>sizing_mode\<close> has been written on the objects \<open>refs\<close>.\<close>

definition set_modes :: "ref list \<Rightarrow> sizing \<Rightarrow> store \<Rightarrow> store" where
  "set_modes refs mode s = (\<lambda>r. if r \<in> set refs then (s r)\<lparr>sizing_mode := mode\<rparr> else s r)"

text \<open>A layout object with the attribute values of a new object, for examples.\<close>

definition blank :: obj where
  "blank = \<lparr>is_Plot = False, sizing_mode = None, toolbar_tools = [], toolbar_location = None,
            plot_width = 600, plot_height = 600, select_Plot = []\<rparr>"

text \<open>Positional arguments that are one list or one \<^verbatim>\<open>GridSpec\<close>: the normalizer takes
  such an argument as the children themselves.\<close>

definition lone_iterable :: "pyval list \<Rightarrow> bool" where
  "lone_iterable args =
     (case args of [PList xs] \<Rightarrow> True | [PGridSpec g] \<Rightarrow> True | _ \<Rightarrow> False)"

text \<open>A grid of plots as \<^verbatim>\<open>gridplot\<close> documents it: a list of rows, each cell an existing
  layout object or \<^verbatim>\<open>None\<close> for an empty position.\<close>

type_synonym plot_grid = "ref option list list"

fun cell_to_py :: "ref option \<Rightarrow> pyval" where
  "cell_to_py None = PNone"
| "cell_to_py (Some r) = PDom (Obj r)"

definition grid_to_py :: "plot_grid \<Rightarrow> pyval" where
  "grid_to_py g = PList (map (\<lambda>cells. PList (map cell_to_py cells)) g)"

text \<open>The plots \<^verbatim>\<open>select\<close> finds under the items of a grid, in row-major order, and the
  concatenation of their tools.\<close>

fun cell_plots :: "store \<Rightarrow> ref option \<Rightarrow> ref list" where
  "cell_plots s None = []"
| "cell_plots s (Some r) = select_Plot (s r)"

definition row_plots :: "store \<Rightarrow> ref option list \<Rightarrow> ref list" where
  "row_plots s cells = concat (map (cell_plots s) cells)"

definition descendant_plots :: "store \<Rightarrow> plot_grid \<Rightarrow> ref list" where
  "descendant_plots s g = concat (map (row_plots s) g)"

definition merged_tools :: "store \<Rightarrow> ref list \<Rightarrow> tool list" where
  "merged_tools s plots = concat (map (\<lambda>p. toolbar_tools (s p)) plots)"

text \<open>The children of the \<^verbatim>\<open>GridBox\<close>: each item with its row and column, empty
  positions skipped.\<close>

fun row_items :: "nat \<Rightarrow> nat \<Rightarrow> ref option list \<Rightarrow> (LayoutDOM \<times> nat \<times> nat) list" where
  "row_items y x [] = []"
| "row_items y x (None # cells) = row_items y (Suc x) cells"
| "row_items y x (Some r # cells) = (Obj r, y, x) # row_items y (Suc x) cells"

fun grid_items :: "nat \<Rightarrow> plot_grid \<Rightarrow> (LayoutDOM \<times> nat \<times> nat) list" where
  "grid_items y [] = []"
| "grid_items y (cells # rest) = row_items y 0 cells @ grid_items (Suc y) rest"

text \<open>The toolbars of the toolbar containers of a tree.\<close>

fun toolbars :: "LayoutDOM \<Rightarrow> ProxyToolbar list" where
  "toolbars (Obj r) = []"
| "toolbars (Row cs m) = concat (map toolbars cs)"
| "toolbars (Column cs m) = concat (map toolbars cs)"
| "toolbars (GridBox cs m) = concat (map (\<lambda>t. toolbars (fst t)) cs)"
| "toolbars (ToolbarBox p l m) = [p]"

text \<open>Two stores agree on the attributes the module never writes; and the plots \<open>ps\<close>,
  with every plot already detached in \<open>s\<close>, have no toolbar location in \<open>s'\<close>.\<close>

definition same_static :: "store \<Rightarrow> store \<Rightarrow> bool" where
  "same_static s s' =
     (\<forall>r. is_Plot (s' r) = is_Plot (s r) \<and> toolbar_tools (s' r) = toolbar_tools (s r) \<and>
          select_Plot (s' r) = select_Plot (s r))"

definition detached :: "ref list \<Rightarrow> store \<Rightarrow> store \<Rightarrow> bool" where
  "detached ps s s' =
     (\<forall>p. p \<in> set ps \<or> toolbar_location (s p) = None \<longrightarrow> toolbar_location (s' p) = None)"

text \<open>Example objects: a plot that \<^verbatim>\<open>select\<close> finds as itself, and a store with two
  plots.\<close>

definition plot_obj :: "ref \<Rightarrow> tool list \<Rightarrow> obj" where
  "plot_obj r tls = \<lparr>is_Plot = True, sizing_mode = None, toolbar_tools = tls,
            toolbar_location = Some ''right'', plot_width = 600, plot_height = 600,
            select_Plot = [r]\<rparr>"

definition two_plots :: store where
  "two_plots = (\<lambda>r. if r = 1 then plot_obj 1 [''pan'', ''zoom'']
                     else if r = 2 then plot_obj 2 [''save''] else blank)"

text \<open>A toolbar location that passes the check of \<^verbatim>\<open>gridplot\<close>: \<^verbatim>\<open>None\<close> or a member of
  \<^verbatim>\<open>Location\<close>.\<close>

definition valid_location :: "string option \<Rightarrow> bool" where
  "valid_location loc = (case loc of None \<Rightarrow> True | Some l \<Rightarrow> Location_has l)"

section \<open>GridSpec: iteration and scalar assignment\<close>





lemma resolve_key_Idx:
  "resolve_key (Idx i) n =
     (if - n \<le> i \<and> i < n then Inr (if i < 0 then i + n else i, None)
      else Inl (IndexError ''index out of range''))"
  by (auto simp: resolve_key_def Let_def)

lemma setitem_scalar:
  "GridSpec_setitem g (Idx r, Idx c) obj =
     (if - nrows g \<le> r \<and> r < nrows g \<and> - ncols g \<le> c \<and> c < ncols g
      then Inr (GridSpec (nrows g) (ncols g)
                  (AList.update (if r < 0 then r + nrows g else r,
                                 if c < 0 then c + ncols g else c) obj (arrangement g)))
      else Inl (IndexError ''index out of range''))"
  by (simp add: GridSpec_setitem_def resolve_key_Idx)


lemma wf_update:
  assumes "wf_GridSpec g" "0 \<le> r" "r < nrows g" "0 \<le> c" "c < ncols g"
  shows "wf_GridSpec (GridSpec (nrows g) (ncols g) (AList.update (r, c) v (arrangement g)))"
proof -
  have d: "distinct (map fst (AList.update (r, c) v (arrangement g)))"
    using assms(1) by (simp add: wf_GridSpec_def distinct_update)
  have k: "fst ` set (AList.update (r, c) v (arrangement g)) = {(r, c)} \<union> fst ` set (arrangement g)"
    by (rule dom_update)
  show ?thesis
    unfolding wf_GridSpec_def using d k assms by (auto simp: wf_GridSpec_def)
qed






section \<open>GridSpec: slice assignment\<close>

lemma getitem2_nested:
  assumes "0 \<le> i" and "0 \<le> j"
  shows "get_or_else (getitem2 (PList (map PList xss)) i j) PNone =
           Inr (if nat i < length xss \<and> nat j < length (xss ! nat i)
                then xss ! nat i ! nat j else PNone)"
proof (cases "nat i < length xss")
  case True
  then have "py_getitem (PList (map PList xss)) i = Inr (PList (xss ! nat i))"
    using assms by (simp add: Let_def nat_less_iff)
  then show ?thesis using True assms
    by (simp add: getitem2_def get_or_else_def Let_def nat_less_iff)
next
  case False
  then have "py_getitem (PList (map PList xss)) i = Inl (IndexError ''list index out of range'')"
    using assms by (simp add: Let_def nat_less_iff)
  then show ?thesis using False by (simp add: getitem2_def get_or_else_def)
qed

lemma fill_zip_map_of:
  assumes "\<forall>p \<in> set ps. get_or_else (getitem2 obj (fst p - row1) (snd p - col1)) PNone = Inr (f p)"
  shows "\<exists>arr'. fill_zip arr row1 col1 obj ps = Inr arr' \<and>
           map_of arr' = (\<lambda>k. if k \<in> set ps then Some (f k) else map_of arr k) \<and>
           fst ` set arr' = fst ` set arr \<union> set ps"
  using assms
proof (induction ps arbitrary: arr)
  case Nil
  then show ?case by simp
next
  case (Cons p ps)
  obtain r c where p: "p = (r, c)" by (cases p)
  let ?arr1 = "AList.update (r, c) (f p) arr"
  have v: "get_or_else (getitem2 obj (r - row1) (c - col1)) PNone = Inr (f p)"
    using Cons.prems p by simp
  have rest: "\<forall>q \<in> set ps. get_or_else (getitem2 obj (fst q - row1) (snd q - col1)) PNone = Inr (f q)"
    using Cons.prems by simp
  from Cons.IH[OF rest, of ?arr1] obtain arr' where
    A: "fill_zip ?arr1 row1 col1 obj ps = Inr arr'"
       "map_of arr' = (\<lambda>k. if k \<in> set ps then Some (f k) else map_of ?arr1 k)"
       "fst ` set arr' = fst ` set ?arr1 \<union> set ps"
    by blast
  have 1: "fill_zip arr row1 col1 obj (p # ps) = Inr arr'"
    using A(1) v p by simp
  have 2: "map_of arr' = (\<lambda>k. if k \<in> set (p # ps) then Some (f k) else map_of arr k)"
    using A(2) p by (auto simp: update_conv' fun_eq_iff)
  have 3: "fst ` set arr' = fst ` set arr \<union> set (p # ps)"
    using A(3) p dom_update[of "(r, c)" "f p" arr] by auto
  show ?case using 1 2 3 by blast
qed

lemma length_py_range: "length (py_range a b) = nat (b - a)"
  by (simp add: py_range_def)

lemma nth_py_range: "k < nat (b - a) \<Longrightarrow> py_range a b ! k = a + int k"
  by (simp add: py_range_def)

lemma set_zip_py_range:
  "set (zip (py_range r1 r2) (py_range c1 c2)) =
     {(r1 + i, c1 + i) | i. 0 \<le> i \<and> i < min (r2 - r1) (c2 - c1)}"
proof (intro set_eqI iffI)
  fix x assume "x \<in> set (zip (py_range r1 r2) (py_range c1 c2))"
  then obtain k where k: "x = (py_range r1 r2 ! k, py_range c1 c2 ! k)"
      "k < min (length (py_range r1 r2)) (length (py_range c1 c2))"
    unfolding set_zip by blast
  then have kk: "k < nat (r2 - r1)" "k < nat (c2 - c1)" by (simp_all add: length_py_range)
  then have "x = (r1 + int k, c1 + int k)" using k(1) by (simp add: nth_py_range)
  moreover have "0 \<le> int k \<and> int k < min (r2 - r1) (c2 - c1)" using kk by arith
  ultimately show "x \<in> {(r1 + i, c1 + i) | i. 0 \<le> i \<and> i < min (r2 - r1) (c2 - c1)}"
    by blast
next
  fix x assume "x \<in> {(r1 + i, c1 + i) | i. 0 \<le> i \<and> i < min (r2 - r1) (c2 - c1)}"
  then obtain i where i: "x = (r1 + i, c1 + i)" "0 \<le> i" "i < min (r2 - r1) (c2 - c1)" by blast
  let ?k = "nat i"
  have kk: "?k < nat (r2 - r1)" "?k < nat (c2 - c1)" using i by simp_all
  then have "x = (py_range r1 r2 ! ?k, py_range c1 c2 ! ?k)"
    using i by (simp add: nth_py_range)
  moreover have "?k < min (length (py_range r1 r2)) (length (py_range c1 c2))"
    using kk by (simp add: length_py_range)
  ultimately show "x \<in> set (zip (py_range r1 r2) (py_range c1 c2))"
    unfolding set_zip by blast
qed

lemma resolve_key_Slice:
  "slice_indices a b st n = Inr (r1, r2, k) \<Longrightarrow> resolve_key (Slice a b st) n = Inr (r1, Some r2)"
  by (simp add: resolve_key_def)

lemma slice_indices_plain:
  "0 \<le> a \<Longrightarrow> a \<le> n \<Longrightarrow> 0 \<le> b \<Longrightarrow> b \<le> n \<Longrightarrow>
   slice_indices (Some a) (Some b) None n = Inr (a, b, 1)"
  by (simp add: slice_indices_def Let_def)

lemma wf_GridSpec_setitem_scalar:
  assumes "wf_GridSpec g" and "GridSpec_setitem g (Idx r, Idx c) obj = Inr g'"
  shows "wf_GridSpec g'"
proof -
  let ?r = "if r < 0 then r + nrows g else r" and ?c = "if c < 0 then c + ncols g else c"
  have rng: "- nrows g \<le> r \<and> r < nrows g \<and> - ncols g \<le> c \<and> c < ncols g"
    using assms(2) by (simp add: setitem_scalar split: if_splits)
  then have g': "g' = GridSpec (nrows g) (ncols g) (AList.update (?r, ?c) obj (arrangement g))"
    using assms(2) by (simp add: setitem_scalar)
  have "0 \<le> ?r" "?r < nrows g" "0 \<le> ?c" "?c < ncols g" using rng by auto
  then show ?thesis unfolding g' using assms(1) by (intro wf_update)
qed

section \<open>The children normalizer and the layout builder\<close>

lemma handle_children_keyword_list: "handle_children [] (PList xs) = Inr (PList xs)"
  by (cases xs) (simp_all add: handle_children_def)

lemma handle_children_single_list: "handle_children [PList xs] PNone = Inr (PList xs)"
  by (simp add: handle_children_def)

lemma only_LayoutDOM_map_PDom: "only_LayoutDOM msg (map PDom ts) = Inr ts"
  by (induction ts) simp_all

lemma column_of_LayoutDOM: "column [] (PList (map PDom ts)) mode = Inr (Column ts mode)"
  by (simp add: column_def handle_children_keyword_list py_iter_def only_LayoutDOM_map_PDom)

lemma row_of_LayoutDOM: "row [] (PList (map PDom ts)) mode = Inr (Row ts mode)"
  by (simp add: row_def handle_children_keyword_list py_iter_def only_LayoutDOM_map_PDom)

lemma column_of_map: "column [] (PList (map (PDom \<circ> f) xs)) mode = Inr (Column (map f xs) mode)"
  using column_of_LayoutDOM[of "map f xs" mode] by simp

lemma row_of_map: "row [] (PList (map (PDom \<circ> f) xs)) mode = Inr (Row (map f xs) mode)"
  using row_of_LayoutDOM[of "map f xs" mode] by simp

lemma set_modes_Nil: "set_modes [] mode s = s"
  by (simp add: set_modes_def)

lemma set_modes_Cons:
  "set_modes rs mode (s(r := (s r)\<lparr>sizing_mode := mode\<rparr>)) = set_modes (r # rs) mode s"
  by (auto simp: set_modes_def fun_eq_iff)

lemma set_modes_append:
  "set_modes bs mode (set_modes as mode s) = set_modes (as @ bs) mode s"
  by (auto simp: set_modes_def fun_eq_iff)

lemma create_grid_loop_nested:
  assumes "\<And>ms layer s. Nest ms \<in> set ns \<Longrightarrow>
             create_grid (map to_py ms) mode layer s =
               Inr (alternating layer mode (Nest ms), set_modes (leaves (Nest ms)) mode s)"
  shows "create_grid_loop (map to_py ns) mode layer s =
           Inr (map (alternating (Suc layer) mode) ns, set_modes (concat (map leaves ns)) mode s)"
  using assms
proof (induction ns arbitrary: s)
  case Nil
  then show ?case by (simp add: set_modes_Nil)
next
  case (Cons n ns)
  have IH: "\<And>s. create_grid_loop (map to_py ns) mode layer s =
           Inr (map (alternating (Suc layer) mode) ns, set_modes (concat (map leaves ns)) mode s)"
    using Cons.IH Cons.prems by simp
  show ?case
  proof (cases n)
    case (Leaf r)
    then show ?thesis using IH by (simp add: set_modes_Cons)
  next
    case (Nest ms)
    have "create_grid (map to_py ms) mode (layer + 1) s =
               Inr (alternating (layer + 1) mode (Nest ms), set_modes (leaves (Nest ms)) mode s)"
      using Cons.prems[of ms "layer + 1" s] Nest by simp
    then show ?thesis using IH Nest by (simp add: set_modes_append del: create_grid.simps alternating.simps)
  qed
qed

lemma create_grid_nested:
  "create_grid (map to_py ns) mode layer s =
     Inr (alternating layer mode (Nest ns), set_modes (leaves (Nest ns)) mode s)"
proof -
  have "\<forall>layer s. (case n of Leaf r \<Rightarrow> True
          | Nest ns \<Rightarrow> create_grid (map to_py ns) mode layer s =
              Inr (alternating layer mode (Nest ns), set_modes (leaves (Nest ns)) mode s))" for n
  proof (induction n)
    case (Leaf r)
    then show ?case by simp
  next
    case (Nest ns)
    have elems: "\<And>ms layer s. Nest ms \<in> set ns \<Longrightarrow>
             create_grid (map to_py ms) mode layer s =
               Inr (alternating layer mode (Nest ms), set_modes (leaves (Nest ms)) mode s)"
      using Nest.IH by force
    have loop: "\<And>layer s. create_grid_loop (map to_py ns) mode layer s =
           Inr (map (alternating (Suc layer) mode) ns, set_modes (concat (map leaves ns)) mode s)"
      using create_grid_loop_nested[OF elems] by blast
    have "create_grid (map to_py ns) mode layer s =
              Inr (alternating layer mode (Nest ns), set_modes (leaves (Nest ns)) mode s)"
      for layer s
    proof (cases "layer mod 2 = 0")
      case True
      then have "even layer" by presburger
      then show ?thesis using True by (simp add: loop column_of_map)
    next
      case False
      then have "odd layer" by presburger
      then show ?thesis using False by (simp add: loop row_of_map)
    qed
    then show ?case by simp
  qed
  from this[of "Nest ns"] show ?thesis by simp
qed

lemma layout_nested:
  "layout [to_py (Nest ns)] PNone mode s =
     Inr (alternating 0 mode (Nest ns), set_modes (leaves (Nest ns)) mode s)"
  "layout [] (to_py (Nest ns)) mode s =
     Inr (alternating 0 mode (Nest ns), set_modes (leaves (Nest ns)) mode s)"
  using create_grid_nested[of ns mode 0 s]
  by (simp_all add: layout_def handle_children_single_list handle_children_keyword_list py_iter_def
        del: create_grid.simps alternating.simps leaves.simps)

lemma tree_refs_alternating: "tree_refs (alternating depth mode n) = leaves n"
proof (induction n arbitrary: depth)
  case (Leaf r)
  then show ?case by simp
next
  case (Nest ns)
  have eq: "map (tree_refs \<circ> alternating (Suc depth) mode) ns = map leaves ns"
    using Nest.IH by (intro map_cong) simp_all
  show ?case
    by (cases "even depth")
       (simp_all only: alternating.simps leaves.simps tree_refs.simps map_map eq if_True if_False)
qed

lemma nodes_sized_alternating:
  "set (leaves n) \<subseteq> set refs \<Longrightarrow>
   nodes_sized mode (set_modes refs mode s) (alternating depth mode n)"
proof (induction n arbitrary: depth)
  case (Leaf r)
  then show ?case by (simp add: set_modes_def)
next
  case (Nest ns)
  have "\<forall>x \<in> set ns. nodes_sized mode (set_modes refs mode s) (alternating (Suc depth) mode x)"
  proof
    fix x assume x: "x \<in> set ns"
    then have "set (leaves x) \<subseteq> set refs" using Nest.prems by auto
    then show "nodes_sized mode (set_modes refs mode s) (alternating (Suc depth) mode x)"
      using Nest.IH[OF x] by simp
  qed
  then show ?case by simp
qed

lemma handle_children_conflict:
  "args \<noteq> [] \<Longrightarrow> children \<noteq> PNone \<Longrightarrow>
   handle_children args children =
     Inl (ValueError ''children keyword cannot be used with positional arguments'')"
  by (simp add: handle_children_def)

lemma handle_children_positional:
  "\<not> lone_iterable args \<Longrightarrow> handle_children args PNone = Inr (PList args)"
  by (auto simp: handle_children_def lone_iterable_def split: list.splits pyval.splits)

lemma row_positional: "row (map PDom ds) PNone mode = Inr (Row ds mode)"
proof -
  have "\<not> lone_iterable (map PDom ds)"
    by (auto simp: lone_iterable_def split: list.splits pyval.splits)
  then show ?thesis
    by (simp add: row_def handle_children_positional py_iter_def only_LayoutDOM_map_PDom)
qed

lemma column_positional: "column (map PDom ds) PNone mode = Inr (Column ds mode)"
proof -
  have "\<not> lone_iterable (map PDom ds)"
    by (auto simp: lone_iterable_def split: list.splits pyval.splits)
  then show ?thesis
    by (simp add: column_def handle_children_positional py_iter_def only_LayoutDOM_map_PDom)
qed

lemma row_single_list: "row [PList (map PDom ds)] PNone mode = Inr (Row ds mode)"
  by (simp add: row_def handle_children_single_list py_iter_def only_LayoutDOM_map_PDom)

lemma column_single_list: "column [PList (map PDom ds)] PNone mode = Inr (Column ds mode)"
  by (simp add: column_def handle_children_single_list py_iter_def only_LayoutDOM_map_PDom)

section \<open>gridplot\<close>

lemma same_static_refl: "same_static s s"
  by (simp add: same_static_def)

lemma same_static_trans: "same_static s s1 \<Longrightarrow> same_static s1 s2 \<Longrightarrow> same_static s s2"
  by (simp add: same_static_def)

lemma detached_trans:
  "detached ps s s1 \<Longrightarrow> detached qs s1 s2 \<Longrightarrow> detached (ps @ qs) s s2"
  by (auto simp: detached_def)

lemma detached_Nil_refl: "detached [] s s"
  by (simp add: detached_def)

lemma merged_tools_static:
  "same_static s s' \<Longrightarrow> merged_tools s' ps = merged_tools s ps"
  by (simp add: merged_tools_def same_static_def)

lemma cell_plots_static: "same_static s s' \<Longrightarrow> cell_plots s' c = cell_plots s c"
  by (cases c) (simp_all add: same_static_def)

lemma row_plots_static: "same_static s s' \<Longrightarrow> row_plots s' cells = row_plots s cells"
  unfolding row_plots_def by (induction cells) (simp_all add: cell_plots_static)

lemma descendant_plots_static:
  "same_static s s' \<Longrightarrow> descendant_plots s' g = descendant_plots s g"
  unfolding descendant_plots_def by (induction g) (simp_all add: row_plots_static)

lemma merged_tools_append: "merged_tools s (ps @ qs) = merged_tools s ps @ merged_tools s qs"
  by (simp add: merged_tools_def)

lemma merge_plots_result:
  "\<exists>s'. merge_plots ps (ts, s) = (ts @ merged_tools s ps, s') \<and> same_static s s' \<and>
         detached ps s s'"
proof (induction ps arbitrary: ts s)
  case Nil
  then show ?case by (simp add: merged_tools_def same_static_refl detached_Nil_refl)
next
  case (Cons p ps)
  let ?s1 = "s(p := (s p)\<lparr>toolbar_location := None\<rparr>)"
  have st: "same_static s ?s1" by (simp add: same_static_def)
  have dt: "detached [p] s ?s1" by (simp add: detached_def)
  from Cons.IH[of "ts @ toolbar_tools (s p)" ?s1] obtain s' where
    A: "merge_plots ps (ts @ toolbar_tools (s p), ?s1) =
          ((ts @ toolbar_tools (s p)) @ merged_tools ?s1 ps, s')"
       "same_static ?s1 s'" "detached ps ?s1 s'"
    by blast
  have m: "merged_tools ?s1 ps = merged_tools s ps" using st by (rule merged_tools_static)
  have 1: "merge_plots (p # ps) (ts, s) = (ts @ merged_tools s (p # ps), s')"
    using A(1) m by (simp add: merged_tools_def)
  have 2: "same_static s s'" using st A(2) by (rule same_static_trans)
  have 3: "detached (p # ps) s s'" using detached_trans[OF dt A(3)] by simp
  show ?case using 1 2 3 by blast
qed

lemma set_plot_size_static: "same_static s (set_plot_size d w h s)"
  by (cases d) (auto simp: same_static_def Let_def split: option.splits)

lemma set_plot_size_location:
  "toolbar_location (set_plot_size d w h s p) = toolbar_location (s p)"
  by (cases d) (auto simp: Let_def split: option.splits)

lemma set_plot_size_detached: "detached ps s s1 \<Longrightarrow> detached ps s (set_plot_size d w h s1)"
  by (simp add: detached_def set_plot_size_location)

lemma grid_row_merge:
  "\<exists>s'. grid_row True w h y x (map cell_to_py cells) (ts, items, s) =
           Inr (ts @ merged_tools s (row_plots s cells), items @ row_items y x cells, s') \<and>
         same_static s s' \<and> detached (row_plots s cells) s s'"
proof (induction cells arbitrary: x ts items s)
  case Nil
  then show ?case
    by (simp add: row_plots_def merged_tools_def same_static_refl detached_Nil_refl)
next
  case (Cons c cells)
  show ?case
  proof (cases c)
    case None
    from Cons.IH[of "Suc x" ts items s] show ?thesis using None
      by (simp add: row_plots_def)
  next
    case (Some r)
    let ?ps = "select_Plot (s r)"
    from merge_plots_result[of ?ps ts s] obtain s1 where
      M: "merge_plots ?ps (ts, s) = (ts @ merged_tools s ?ps, s1)" "same_static s s1"
         "detached ?ps s s1"
      by blast
    let ?s2 = "set_plot_size (Obj r) w h s1"
    have st2: "same_static s ?s2"
      using M(2) set_plot_size_static[of s1 "Obj r" w h] by (rule same_static_trans)
    have dt2: "detached ?ps s ?s2" using M(3) by (rule set_plot_size_detached)
    from Cons.IH[of "Suc x" "ts @ merged_tools s ?ps" "items @ [(Obj r, y, x)]" ?s2]
    obtain s' where
      A: "grid_row True w h y (Suc x) (map cell_to_py cells)
            (ts @ merged_tools s ?ps, items @ [(Obj r, y, x)], ?s2) =
          Inr ((ts @ merged_tools s ?ps) @ merged_tools ?s2 (row_plots ?s2 cells),
               (items @ [(Obj r, y, x)]) @ row_items y (Suc x) cells, s')"
         "same_static ?s2 s'" "detached (row_plots ?s2 cells) ?s2 s'"
      by blast
    have rp: "row_plots ?s2 cells = row_plots s cells"
      using st2 by (rule row_plots_static)
    have mt: "merged_tools ?s2 (row_plots s cells) = merged_tools s (row_plots s cells)"
      using st2 by (rule merged_tools_static)
    have rpc: "row_plots s (c # cells) = ?ps @ row_plots s cells"
      using Some by (simp add: row_plots_def)
    have 1: "grid_row True w h y x (map cell_to_py (c # cells)) (ts, items, s) =
           Inr (ts @ merged_tools s (row_plots s (c # cells)),
                items @ row_items y x (c # cells), s')"
      using A(1) M(1) Some rp mt rpc by (simp add: merged_tools_append del: set_plot_size.simps)
    have 2: "same_static s s'" using st2 A(2) by (rule same_static_trans)
    have 3: "detached (row_plots s (c # cells)) s s'"
      using detached_trans[OF dt2 A(3)] rp rpc by simp
    show ?thesis using 1 2 3 by blast
  qed
qed

lemma grid_rows_merge:
  "\<exists>s'. grid_rows True w h y (map (\<lambda>cells. PList (map cell_to_py cells)) g) (ts, items, s) =
           Inr (ts @ merged_tools s (descendant_plots s g), items @ grid_items y g, s') \<and>
         same_static s s' \<and> detached (descendant_plots s g) s s'"
proof (induction g arbitrary: y ts items s)
  case Nil
  then show ?case
    by (simp add: descendant_plots_def merged_tools_def same_static_refl detached_Nil_refl)
next
  case (Cons cells g)
  from grid_row_merge[of w h y 0 cells ts items s] obtain s1 where
    R: "grid_row True w h y 0 (map cell_to_py cells) (ts, items, s) =
           Inr (ts @ merged_tools s (row_plots s cells), items @ row_items y 0 cells, s1)"
       "same_static s s1" "detached (row_plots s cells) s s1"
    by blast
  from Cons.IH[of "Suc y" "ts @ merged_tools s (row_plots s cells)" "items @ row_items y 0 cells" s1]
  obtain s' where
    A: "grid_rows True w h (Suc y) (map (\<lambda>cells. PList (map cell_to_py cells)) g)
          (ts @ merged_tools s (row_plots s cells), items @ row_items y 0 cells, s1) =
        Inr ((ts @ merged_tools s (row_plots s cells)) @ merged_tools s1 (descendant_plots s1 g),
             (items @ row_items y 0 cells) @ grid_items (Suc y) g, s')"
       "same_static s1 s'" "detached (descendant_plots s1 g) s1 s'"
    by blast
  have dp: "descendant_plots s1 g = descendant_plots s g"
    using R(2) by (rule descendant_plots_static)
  have mt: "merged_tools s1 (descendant_plots s g) = merged_tools s (descendant_plots s g)"
    using R(2) by (rule merged_tools_static)
  have dpc: "descendant_plots s (cells # g) = row_plots s cells @ descendant_plots s g"
    by (simp add: descendant_plots_def)
  have 1: "grid_rows True w h y (map (\<lambda>cells. PList (map cell_to_py cells)) (cells # g)) (ts, items, s) =
           Inr (ts @ merged_tools s (descendant_plots s (cells # g)),
                items @ grid_items y (cells # g), s')"
    using A(1) R(1) dp mt dpc by (simp add: merged_tools_append py_iter_def)
  have 2: "same_static s s'" using R(2) A(2) by (rule same_static_trans)
  have 3: "detached (descendant_plots s (cells # g)) s s'"
    using detached_trans[OF R(3) A(3)] dp dpc by simp
  show ?case using 1 2 3 by blast
qed

lemma toolbars_row_items: "concat (map (\<lambda>t. toolbars (fst t)) (row_items y x cells)) = []"
  by (induction y x cells rule: row_items.induct) simp_all

lemma toolbars_grid_items: "concat (map (\<lambda>t. toolbars (fst t)) (grid_items y g)) = []"
  by (induction y g rule: grid_items.induct) (simp_all add: toolbars_row_items)

lemma handle_children_grid: "handle_children [] (grid_to_py g) = Inr (grid_to_py g)"
  by (cases g) (simp_all add: handle_children_def grid_to_py_def)

lemma py_iter_grid:
  "py_iter (if \<not> py_truthy (grid_to_py g) then PList [] else grid_to_py g) =
     Inr (map (\<lambda>cells. PList (map cell_to_py cells)) g)"
  by (cases g) (simp_all add: grid_to_py_def py_iter_def)

lemma gridplot_merge_result:
  assumes "Location_has loc"
  shows "\<exists>s'. gridplot (grid_to_py g) mode (Some loc) None w h opts True s =
           Inr (wrap_grid (merged_tools s (descendant_plots s g)) (grid_items 0 g) mode (Some loc)
                  (case opts of None \<Rightarrow> [] | Some d \<Rightarrow> d) True, s') \<and>
         same_static s s' \<and> detached (descendant_plots s g) s s'"
proof -
  from grid_rows_merge[of w h 0 g "[]" "[]" s] obtain s' where
    A: "grid_rows True w h 0 (map (\<lambda>cells. PList (map cell_to_py cells)) g) ([], [], s) =
           Inr (merged_tools s (descendant_plots s g), grid_items 0 g, s')"
       "same_static s s'" "detached (descendant_plots s g) s s'"
    by auto
  have "gridplot (grid_to_py g) mode (Some loc) None w h opts True s =
           Inr (wrap_grid (merged_tools s (descendant_plots s g)) (grid_items 0 g) mode (Some loc)
                  (case opts of None \<Rightarrow> [] | Some d \<Rightarrow> d) True, s')"
    using assms A(1)
    by (simp add: gridplot_def handle_children_grid apply_ncols_def py_iter_grid Let_def
          del: py_truthy.simps)
  then show ?thesis using A(2,3) by blast
qed

lemma toolbars_wrap_grid:
  assumes "Location_has loc"
  shows "\<exists>t. wrap_grid tls (grid_items 0 g) mode (Some loc) opts True = PDom t \<and>
             toolbars t = [ProxyToolbar tls opts]"
proof -
  have "loc = ''above'' \<or> loc = ''below'' \<or> loc = ''left'' \<or> loc = ''right''"
    using assms by (simp add: Location_has_def)
  then show ?thesis
    by (elim disjE) (simp_all add: wrap_grid_def Let_def toolbars_grid_items)
qed

lemma gridplot_result_wrap:
  assumes "gridplot children mode loc n_cols w h opts merge_tools s = Inr (res, s')"
  shows "\<exists>tls items. res = wrap_grid tls items mode loc
                             (case opts of None \<Rightarrow> [] | Some d \<Rightarrow> d) merge_tools"
  using assms unfolding gridplot_def Let_def
  by (auto split: if_splits sum.splits prod.splits)

lemma grid_row_returns:
  "\<exists>acc'. grid_row merge_tools w h y x (map cell_to_py cells) (ts, items, s) = Inr acc'"
proof (induction cells arbitrary: x ts items s)
  case Nil
  then show ?case by simp
next
  case (Cons c cells)
  show ?case
  proof (cases c)
    case None
    then show ?thesis using Cons.IH[of "Suc x" ts items s] by simp
  next
    case (Some r)
    obtain ts1 s1 where
      m: "(if merge_tools then merge_plots (select_plots s (Obj r)) (ts, s) else (ts, s)) = (ts1, s1)"
      by (cases "if merge_tools then merge_plots (select_plots s (Obj r)) (ts, s) else (ts, s)")
    from Cons.IH[of "Suc x" ts1 "items @ [(Obj r, y, x)]" "set_plot_size (Obj r) w h s1"]
    show ?thesis using Some m by (simp del: set_plot_size.simps select_plots.simps)
  qed
qed

lemma grid_rows_returns:
  "\<exists>acc'. grid_rows merge_tools w h y (map (\<lambda>cells. PList (map cell_to_py cells)) g)
            (ts, items, s) = Inr acc'"
proof (induction g arbitrary: y ts items s)
  case Nil
  then show ?case by simp
next
  case (Cons cells g)
  from grid_row_returns[of merge_tools w h y 0 cells ts items s] obtain ts1 items1 s1 where
    R: "grid_row merge_tools w h y 0 (map cell_to_py cells) (ts, items, s) = Inr (ts1, items1, s1)"
    by (metis prod.collapse)
  from Cons.IH[of "Suc y" ts1 items1 s1] show ?case using R by (simp add: py_iter_def)
qed

lemma gridplot_grid_returns:
  assumes "valid_location loc"
  shows "\<exists>res s'. gridplot (grid_to_py g) mode loc None w h opts merge_tools s = Inr (res, s')"
proof -
  from grid_rows_returns[of merge_tools w h 0 g "[]" "[]" s] obtain ts items s' where
    A: "grid_rows merge_tools w h 0 (map (\<lambda>cells. PList (map cell_to_py cells)) g) ([], [], s) =
          Inr (ts, items, s')"
    by (metis prod.collapse)
  have v: "\<not> (case loc of None \<Rightarrow> False | Some l \<Rightarrow> l \<noteq> [] \<and> \<not> Location_has l)"
    using assms by (auto simp: valid_location_def split: option.splits)
  show ?thesis
    using v A
    by (simp add: gridplot_def handle_children_grid apply_ncols_def py_iter_grid Let_def
          del: py_truthy.simps)
qed

lemma grid_row_items:
  "\<exists>ts' s'. grid_row merge_tools w h y x (map cell_to_py cells) (ts, items, s) =
              Inr (ts', items @ row_items y x cells, s')"
proof (induction cells arbitrary: x ts items s)
  case Nil
  then show ?case by simp
next
  case (Cons c cells)
  show ?case
  proof (cases c)
    case None
    then show ?thesis using Cons.IH[of "Suc x" ts items s] by simp
  next
    case (Some r)
    obtain ts1 s1 where
      m: "(if merge_tools then merge_plots (select_plots s (Obj r)) (ts, s) else (ts, s)) = (ts1, s1)"
      by (cases "if merge_tools then merge_plots (select_plots s (Obj r)) (ts, s) else (ts, s)")
    from Cons.IH[of "Suc x" ts1 "items @ [(Obj r, y, x)]" "set_plot_size (Obj r) w h s1"]
    show ?thesis using Some m by (simp del: set_plot_size.simps select_plots.simps)
  qed
qed

lemma grid_rows_items:
  "\<exists>ts' s'. grid_rows merge_tools w h y (map (\<lambda>cells. PList (map cell_to_py cells)) g)
              (ts, items, s) = Inr (ts', items @ grid_items y g, s')"
proof (induction g arbitrary: y ts items s)
  case Nil
  then show ?case by simp
next
  case (Cons cells g)
  from grid_row_items[of merge_tools w h y 0 cells ts items s] obtain ts1 s1 where
    R: "grid_row merge_tools w h y 0 (map cell_to_py cells) (ts, items, s) =
          Inr (ts1, items @ row_items y 0 cells, s1)"
    by blast
  from Cons.IH[of "Suc y" ts1 "items @ row_items y 0 cells" s1]
  show ?case using R by (simp add: py_iter_def)
qed

lemma gridplot_bare_grid:
  assumes "loc = None \<or> (\<not> merge_tools \<and> valid_location loc)"
  shows "\<exists>s'. gridplot (grid_to_py g) mode loc None w h opts merge_tools s =
               Inr (PDom (GridBox (grid_items 0 g) mode), s')"
proof -
  from grid_rows_items[of merge_tools w h 0 g "[]" "[]" s] obtain ts' s' where
    A: "grid_rows merge_tools w h 0 (map (\<lambda>cells. PList (map cell_to_py cells)) g) ([], [], s) =
          Inr (ts', grid_items 0 g, s')"
    by auto
  have v: "\<not> (case loc of None \<Rightarrow> False | Some l \<Rightarrow> l \<noteq> [] \<and> \<not> Location_has l)"
    using assms by (auto simp: valid_location_def split: option.splits)
  have wr: "wrap_grid ts' (grid_items 0 g) mode loc (case opts of None \<Rightarrow> [] | Some d \<Rightarrow> d)
              merge_tools = PDom (GridBox (grid_items 0 g) mode)"
    using assms by (auto simp: wrap_grid_def split: option.splits)
  have "gridplot (grid_to_py g) mode loc None w h opts merge_tools s =
               Inr (PDom (GridBox (grid_items 0 g) mode), s')"
    using v A wr
    by (simp add: gridplot_def handle_children_grid apply_ncols_def py_iter_grid Let_def
          del: py_truthy.simps)
  then show ?thesis by blast
qed

lemma gridplot_toolbar_result:
  assumes "Location_has loc"
  shows "\<exists>s'. gridplot (grid_to_py g) mode (Some loc) None w h opts True s =
           Inr (wrap_grid (merged_tools s (descendant_plots s g)) (grid_items 0 g) mode (Some loc)
                  (case opts of None \<Rightarrow> [] | Some d \<Rightarrow> d) True, s')"
  using gridplot_merge_result[OF assms, of g mode w h opts s] by blast

section \<open>GridSpec: the state invariant\<close>

text \<open>\<^verbatim>\<open>__init__\<close> establishes the invariant (\<open>wf_GridSpec_init\<close>); every assignment with
  forward keys preserves it.\<close>

lemma fill_zip_keys:
  "fill_zip arr r1 c1 obj ps = Inr arr' \<Longrightarrow>
   fst ` set arr' = fst ` set arr \<union> set ps \<and>
   (distinct (map fst arr) \<longrightarrow> distinct (map fst arr'))"
proof (induction ps arbitrary: arr)
  case Nil
  then show ?case by simp
next
  case (Cons p ps)
  obtain r c where p: "p = (r, c)" by (cases p)
  from Cons.prems p obtain v where
    v: "get_or_else (getitem2 obj (r - r1) (c - c1)) PNone = Inr v"
    and rest: "fill_zip (AList.update (r, c) v arr) r1 c1 obj ps = Inr arr'"
    by (auto split: sum.splits)
  from Cons.IH[OF rest] have
    A: "fst ` set arr' = fst ` set (AList.update (r, c) v arr) \<union> set ps"
       "distinct (map fst (AList.update (r, c) v arr)) \<longrightarrow> distinct (map fst arr')"
    by simp_all
  have k: "fst ` set (AList.update (r, c) v arr) = {(r, c)} \<union> fst ` set arr" by (rule dom_update)
  show ?case using A k p by (auto simp: distinct_update)
qed

lemma fill_row_keys:
  "fill_row arr r1 c1 obj cols = Inr arr' \<Longrightarrow>
   fst ` set arr' = fst ` set arr \<union> (\<lambda>c. (r1, c)) ` set cols \<and>
   (distinct (map fst arr) \<longrightarrow> distinct (map fst arr'))"
proof (induction cols arbitrary: arr)
  case Nil
  then show ?case by simp
next
  case (Cons c cols)
  from Cons.prems obtain v where
    rest: "fill_row (AList.update (r1, c) v arr) r1 c1 obj cols = Inr arr'"
    by (auto split: sum.splits)
  from Cons.IH[OF rest] have
    A: "fst ` set arr' = fst ` set (AList.update (r1, c) v arr) \<union> (\<lambda>c. (r1, c)) ` set cols"
       "distinct (map fst (AList.update (r1, c) v arr)) \<longrightarrow> distinct (map fst arr')"
    by simp_all
  have k: "fst ` set (AList.update (r1, c) v arr) = {(r1, c)} \<union> fst ` set arr" by (rule dom_update)
  show ?case using A k by (auto simp: distinct_update)
qed

lemma fill_col_keys:
  "fill_col arr r1 c1 obj rws = Inr arr' \<Longrightarrow>
   fst ` set arr' = fst ` set arr \<union> (\<lambda>r. (r, c1)) ` set rws \<and>
   (distinct (map fst arr) \<longrightarrow> distinct (map fst arr'))"
proof (induction rws arbitrary: arr)
  case Nil
  then show ?case by simp
next
  case (Cons r rws)
  from Cons.prems obtain v where
    rest: "fill_col (AList.update (r, c1) v arr) r1 c1 obj rws = Inr arr'"
    by (auto split: sum.splits)
  from Cons.IH[OF rest] have
    A: "fst ` set arr' = fst ` set (AList.update (r, c1) v arr) \<union> (\<lambda>r. (r, c1)) ` set rws"
       "distinct (map fst (AList.update (r, c1) v arr)) \<longrightarrow> distinct (map fst arr')"
    by simp_all
  have k: "fst ` set (AList.update (r, c1) v arr) = {(r, c1)} \<union> fst ` set arr" by (rule dom_update)
  show ?case using A k by (auto simp: distinct_update)
qed

lemma set_py_range: "set (py_range a b) = {i. a \<le> i \<and> i < b}"
  by (auto simp: py_range_def)

lemma resolve_key_forward:
  assumes "resolve_key k n = Inr (a, e)" and "forward k"
  shows "0 \<le> a \<and> (case e of None \<Rightarrow> a < n | Some b \<Rightarrow> b \<le> n)"
proof (cases k)
  case (Idx i)
  then show ?thesis using assms(1)
    by (auto simp: resolve_key_def Let_def split: if_splits)
next
  case (Slice x y st)
  then show ?thesis using assms
    by (cases st)
       (auto simp: resolve_key_def slice_indices_def Let_def split: if_splits option.splits)
qed

lemma wf_GridSpec_setitem:
  assumes "wf_GridSpec g" and "forward k1" and "forward k2"
    and "GridSpec_setitem g (k1, k2) obj = Inr g'"
  shows "wf_GridSpec g'"
proof -
  from assms(4) obtain row1 row2 col1 col2 where
    R: "resolve_key k1 (nrows g) = Inr (row1, row2)"
    and C: "resolve_key k2 (ncols g) = Inr (col1, col2)"
    by (auto simp: GridSpec_setitem_def split: sum.splits)
  have rb: "0 \<le> row1 \<and> (case row2 of None \<Rightarrow> row1 < nrows g | Some b \<Rightarrow> b \<le> nrows g)"
    using resolve_key_forward[OF R assms(2)] .
  have cb: "0 \<le> col1 \<and> (case col2 of None \<Rightarrow> col1 < ncols g | Some b \<Rightarrow> b \<le> ncols g)"
    using resolve_key_forward[OF C assms(3)] .
  have d: "distinct (map fst (arrangement g))" using assms(1) by (simp add: wf_GridSpec_def)
  have inr: "\<forall>k \<in> fst ` set (arrangement g). 0 \<le> fst k \<and> fst k < nrows g \<and> 0 \<le> snd k \<and> snd k < ncols g"
    using assms(1) by (simp add: wf_GridSpec_def)
  have "\<exists>arr' W. g' = GridSpec (nrows g) (ncols g) arr' \<and>
          fst ` set arr' = fst ` set (arrangement g) \<union> W \<and> distinct (map fst arr') \<and>
          (\<forall>k \<in> W. 0 \<le> fst k \<and> fst k < nrows g \<and> 0 \<le> snd k \<and> snd k < ncols g)"
  proof (cases row2)
    case None
    note r2 = None
    show ?thesis
    proof (cases col2)
      case None
      have g': "g' = GridSpec (nrows g) (ncols g) (AList.update (row1, col1) obj (arrangement g))"
        using assms(4) R C r2 None by (simp add: GridSpec_setitem_def)
      have k: "fst ` set (AList.update (row1, col1) obj (arrangement g)) =
                 fst ` set (arrangement g) \<union> {(row1, col1)}"
        using dom_update[of "(row1, col1)" obj "arrangement g"] by auto
      have "distinct (map fst (AList.update (row1, col1) obj (arrangement g)))"
        using d by (simp add: distinct_update)
      moreover have "\<forall>k \<in> {(row1, col1)}. 0 \<le> fst k \<and> fst k < nrows g \<and> 0 \<le> snd k \<and> snd k < ncols g"
        using rb cb r2 None by simp
      ultimately show ?thesis using g' k by blast
    next
      case (Some c2)
      from assms(4) R C r2 Some obtain arr' where
        F: "fill_row (arrangement g) row1 col1 obj (py_range col1 c2) = Inr arr'"
        and g': "g' = GridSpec (nrows g) (ncols g) arr'"
        by (auto simp: GridSpec_setitem_def split: sum.splits)
      from fill_row_keys[OF F] d have
        k: "fst ` set arr' = fst ` set (arrangement g) \<union> (\<lambda>c. (row1, c)) ` set (py_range col1 c2)"
        and d': "distinct (map fst arr')" by simp_all
      have "\<forall>k \<in> (\<lambda>c. (row1, c)) ` set (py_range col1 c2).
              0 \<le> fst k \<and> fst k < nrows g \<and> 0 \<le> snd k \<and> snd k < ncols g"
        using rb cb r2 Some by (auto simp: set_py_range)
      then show ?thesis using g' k d' by blast
    qed
  next
    case (Some r2)
    note r2 = Some
    show ?thesis
    proof (cases col2)
      case None
      from assms(4) R C r2 None obtain arr' where
        F: "fill_col (arrangement g) row1 col1 obj (py_range row1 r2) = Inr arr'"
        and g': "g' = GridSpec (nrows g) (ncols g) arr'"
        by (auto simp: GridSpec_setitem_def split: sum.splits)
      from fill_col_keys[OF F] d have
        k: "fst ` set arr' = fst ` set (arrangement g) \<union> (\<lambda>r. (r, col1)) ` set (py_range row1 r2)"
        and d': "distinct (map fst arr')" by simp_all
      have "\<forall>k \<in> (\<lambda>r. (r, col1)) ` set (py_range row1 r2).
              0 \<le> fst k \<and> fst k < nrows g \<and> 0 \<le> snd k \<and> snd k < ncols g"
        using rb cb r2 None by (auto simp: set_py_range)
      then show ?thesis using g' k d' by blast
    next
      case (Some c2)
      from assms(4) R C r2 Some obtain arr' where
        F: "fill_zip (arrangement g) row1 col1 obj (zip (py_range row1 r2) (py_range col1 c2)) = Inr arr'"
        and g': "g' = GridSpec (nrows g) (ncols g) arr'"
        by (auto simp: GridSpec_setitem_def split: sum.splits)
      from fill_zip_keys[OF F] d have
        k: "fst ` set arr' = fst ` set (arrangement g) \<union> set (zip (py_range row1 r2) (py_range col1 c2))"
        and d': "distinct (map fst arr')" by simp_all
      have "\<forall>k \<in> set (zip (py_range row1 r2) (py_range col1 c2)).
              0 \<le> fst k \<and> fst k < nrows g \<and> 0 \<le> snd k \<and> snd k < ncols g"
      proof
        fix k assume "k \<in> set (zip (py_range row1 r2) (py_range col1 c2))"
        then have "fst k \<in> set (py_range row1 r2)" "snd k \<in> set (py_range col1 c2)"
          by (metis prod.collapse set_zip_leftD, metis prod.collapse set_zip_rightD)
        then show "0 \<le> fst k \<and> fst k < nrows g \<and> 0 \<le> snd k \<and> snd k < ncols g"
          using rb cb r2 Some by (auto simp: set_py_range)
      qed
      then show ?thesis using g' k d' by blast
    qed
  qed
  then obtain arr' W where
    A: "g' = GridSpec (nrows g) (ncols g) arr'"
       "fst ` set arr' = fst ` set (arrangement g) \<union> W" "distinct (map fst arr')"
       "\<forall>k \<in> W. 0 \<le> fst k \<and> fst k < nrows g \<and> 0 \<le> snd k \<and> snd k < ncols g"
    by blast
  show ?thesis unfolding wf_GridSpec_def A(1) using A(2,3,4) inr by auto
qed

text \<open>\<^verbatim>\<open>__setitem__\<close> ignores the step of a slice. With a negative step,
  \<^verbatim>\<open>slice.indices\<close> can return the start \<open>- 1\<close>, which is then stored as a row.\<close>

lemma negative_step_slice_key:
  "GridSpec_setitem (GridSpec_init 2 1) (Slice (Some (- 5)) (Some 1) (Some (- 1)), Idx 0)
     (PList [PInt 2]) = Inr (GridSpec 2 1 [((- 1, 0), PInt 2), ((0, 0), PNone)])"
  by (simp add: GridSpec_setitem_def GridSpec_init_def resolve_key_def slice_indices_def Let_def
        py_range_def get_or_else_def upto.simps)






text \<open>
  Claim C6, as stated, fails: a scalar index is not accepted only in \<open>0 \<le> r < nrows\<close>.
  The source adds the axis length to a negative index before the bounds check, so
  \<open>- 1\<close> addresses the last row.
\<close>

theorem setitem_scalar_zero_based_counterexample:
  "GridSpec_setitem (GridSpec_init 2 2) (Idx (- 1), Idx 0) (PInt 7)
     = Inr (GridSpec 2 2 [((1, 0), PInt 7)]) \<and> \<not> (0 \<le> (- 1 :: int))"
  by (simp add: setitem_scalar GridSpec_init_def)

text \<open>
  Claim C6, amended. A scalar key \<open>(r, c)\<close> is accepted exactly when
  \<open>- nrows \<le> r < nrows\<close> and \<open>- ncols \<le> c < ncols\<close>; every other scalar key raises
  \<^verbatim>\<open>IndexError\<close>; and a key with \<open>0 \<le> r < nrows\<close>, \<open>0 \<le> c < ncols\<close> writes the cell
  \<open>(r, c)\<close> itself.
\<close>

theorem setitem_scalar_bounds:
  "(\<exists>g'. GridSpec_setitem g (Idx r, Idx c) obj = Inr g') =
     (- nrows g \<le> r \<and> r < nrows g \<and> - ncols g \<le> c \<and> c < ncols g) \<and>
   ((\<exists>g'. GridSpec_setitem g (Idx r, Idx c) obj = Inr g') \<or>
     GridSpec_setitem g (Idx r, Idx c) obj = Inl (IndexError ''index out of range'')) \<and>
   (0 \<le> r \<and> r < nrows g \<and> 0 \<le> c \<and> c < ncols g \<longrightarrow>
      GridSpec_setitem g (Idx r, Idx c) obj =
        Inr (GridSpec (nrows g) (ncols g) (AList.update (r, c) obj (arrangement g))))"
  by (simp add: setitem_scalar)

theorem setitem_scalar_bounds_witness:
  "GridSpec_setitem (GridSpec_init 2 3) (Idx 1, Idx 2) PNone = Inr (GridSpec 2 3 [((1, 2), PNone)]) \<and>
   GridSpec_setitem (GridSpec_init 2 3) (Idx 2, Idx 0) PNone = Inl (IndexError ''index out of range'') \<and>
   GridSpec_setitem (GridSpec_init 2 3) (Idx 0, Idx (- 4)) PNone = Inl (IndexError ''index out of range'')"
proof -
  have a: "GridSpec_setitem (GridSpec_init 2 3) (Idx 1, Idx 2) PNone = Inr (GridSpec 2 3 [((1, 2), PNone)])"
    using setitem_scalar_bounds[of "GridSpec_init 2 3" 1 2 PNone]
    by (simp add: GridSpec_init_def)
  have b: "GridSpec_setitem (GridSpec_init 2 3) (Idx 2, Idx 0) PNone = Inl (IndexError ''index out of range'')"
    using setitem_scalar_bounds[of "GridSpec_init 2 3" 2 0 PNone]
    by (auto simp: GridSpec_init_def)
  have c: "GridSpec_setitem (GridSpec_init 2 3) (Idx 0, Idx (- 4)) PNone = Inl (IndexError ''index out of range'')"
    using setitem_scalar_bounds[of "GridSpec_init 2 3" 0 "- 4" PNone]
    by (auto simp: GridSpec_init_def)
  show ?thesis using a b c by simp
qed

text \<open>
  Claim C5. Assigning a nested list with slices in both axes writes exactly the cells
  \<open>(r1 + i, c1 + i)\<close> with \<open>0 \<le> i < min (r2 - r1) (c2 - c1)\<close>, where \<open>r1, r2\<close> and
  \<open>c1, c2\<close> are the bounds the two slices resolve to on \<open>nrows\<close> and \<open>ncols\<close>: the two
  ranges are zipped, not crossed. A written cell receives \<open>obj[i][i]\<close>, or \<^verbatim>\<open>None\<close> when
  that element is out of range of the nested list; every other key keeps its value.
\<close>

theorem setitem_slices_zip:
  assumes "slice_indices a1 b1 s1 (nrows g) = Inr (r1, r2, k1)"
    and "slice_indices a2 b2 s2 (ncols g) = Inr (c1, c2, k2)"
  shows "\<exists>g'. GridSpec_setitem g (Slice a1 b1 s1, Slice a2 b2 s2) (PList (map PList xss)) = Inr g' \<and>
           nrows g' = nrows g \<and> ncols g' = ncols g \<and>
           fst ` set (arrangement g') =
             fst ` set (arrangement g) \<union>
               {(r1 + i, c1 + i) | i. 0 \<le> i \<and> i < min (r2 - r1) (c2 - c1)} \<and>
           (\<forall>r c. map_of (arrangement g') (r, c) =
              (if \<exists>i. 0 \<le> i \<and> i < min (r2 - r1) (c2 - c1) \<and> r = r1 + i \<and> c = c1 + i
               then Some (if nat (r - r1) < length xss \<and> nat (c - c1) < length (xss ! nat (r - r1))
                          then xss ! nat (r - r1) ! nat (c - c1) else PNone)
               else map_of (arrangement g) (r, c)))"
proof -
  let ?ps = "zip (py_range r1 r2) (py_range c1 c2)"
  let ?obj = "PList (map PList xss)"
  let ?f = "\<lambda>p. if nat (fst p - r1) < length xss \<and> nat (snd p - c1) < length (xss ! nat (fst p - r1))
                 then xss ! nat (fst p - r1) ! nat (snd p - c1) else PNone"
  have S: "set ?ps = {(r1 + i, c1 + i) | i. 0 \<le> i \<and> i < min (r2 - r1) (c2 - c1)}"
    by (rule set_zip_py_range)
  have vals: "\<forall>p \<in> set ?ps. get_or_else (getitem2 ?obj (fst p - r1) (snd p - c1)) PNone = Inr (?f p)"
  proof
    fix p assume "p \<in> set ?ps"
    then obtain i where "p = (r1 + i, c1 + i)" "0 \<le> i" using S by blast
    then have "0 \<le> fst p - r1" "0 \<le> snd p - c1" by simp_all
    then show "get_or_else (getitem2 ?obj (fst p - r1) (snd p - c1)) PNone = Inr (?f p)"
      by (rule getitem2_nested)
  qed
  from fill_zip_map_of[OF vals, of "arrangement g"] obtain arr' where
    A: "fill_zip (arrangement g) r1 c1 ?obj ?ps = Inr arr'"
       "map_of arr' = (\<lambda>k. if k \<in> set ?ps then Some (?f k) else map_of (arrangement g) k)"
       "fst ` set arr' = fst ` set (arrangement g) \<union> set ?ps"
    by blast
  let ?g' = "GridSpec (nrows g) (ncols g) arr'"
  have set: "GridSpec_setitem g (Slice a1 b1 s1, Slice a2 b2 s2) ?obj = Inr ?g'"
    using A(1) resolve_key_Slice[OF assms(1)] resolve_key_Slice[OF assms(2)]
    by (simp add: GridSpec_setitem_def)
  have keys: "fst ` set (arrangement ?g') =
             fst ` set (arrangement g) \<union>
               {(r1 + i, c1 + i) | i. 0 \<le> i \<and> i < min (r2 - r1) (c2 - c1)}"
    using A(3) S by simp
  have look: "\<forall>r c. map_of (arrangement ?g') (r, c) =
              (if \<exists>i. 0 \<le> i \<and> i < min (r2 - r1) (c2 - c1) \<and> r = r1 + i \<and> c = c1 + i
               then Some (if nat (r - r1) < length xss \<and> nat (c - c1) < length (xss ! nat (r - r1))
                          then xss ! nat (r - r1) ! nat (c - c1) else PNone)
               else map_of (arrangement g) (r, c))"
  proof (intro allI)
    fix r c
    have mem: "((r, c) \<in> set ?ps) = (\<exists>i. 0 \<le> i \<and> i < min (r2 - r1) (c2 - c1) \<and> r = r1 + i \<and> c = c1 + i)"
      unfolding S by auto
    show "map_of (arrangement ?g') (r, c) =
              (if \<exists>i. 0 \<le> i \<and> i < min (r2 - r1) (c2 - c1) \<and> r = r1 + i \<and> c = c1 + i
               then Some (if nat (r - r1) < length xss \<and> nat (c - c1) < length (xss ! nat (r - r1))
                          then xss ! nat (r - r1) ! nat (c - c1) else PNone)
               else map_of (arrangement g) (r, c))"
    proof (cases "(r, c) \<in> set ?ps")
      case True
      then have eq: "map_of (arrangement ?g') (r, c) = Some (?f (r, c))" using A(2) by simp
      have p: "\<exists>i. 0 \<le> i \<and> i < min (r2 - r1) (c2 - c1) \<and> r = r1 + i \<and> c = c1 + i"
        using True mem by blast
      show ?thesis unfolding eq if_P[OF p] by simp
    next
      case False
      then have eq: "map_of (arrangement ?g') (r, c) = map_of (arrangement g) (r, c)"
        using A(2) by simp
      have np: "\<not> (\<exists>i. 0 \<le> i \<and> i < min (r2 - r1) (c2 - c1) \<and> r = r1 + i \<and> c = c1 + i)"
        using False mem by blast
      show ?thesis unfolding eq if_not_P[OF np] by (rule refl)
    qed
  qed
  have "nrows ?g' = nrows g \<and> ncols ?g' = ncols g" by simp
  then show ?thesis using set keys look by blast
qed

theorem setitem_slices_zip_witness:
  "slice_indices (Some 0) (Some 2) None 3 = Inr (0, 2, 1) \<and>
   slice_indices (Some 1) (Some 3) None 3 = Inr (1, 3, 1) \<and>
   (\<exists>g'. GridSpec_setitem (GridSpec_init 3 3) (Slice (Some 0) (Some 2) None, Slice (Some 1) (Some 3) None)
            (PList (map PList [[PInt 10, PInt 11], [PInt 20]])) = Inr g' \<and>
          map_of (arrangement g') (0, 1) = Some (PInt 10) \<and>
          map_of (arrangement g') (1, 2) = Some PNone \<and>
          map_of (arrangement g') (0, 2) = None \<and>
          map_of (arrangement g') (1, 1) = None)"
proof -
  let ?g = "GridSpec_init 3 3"
  have n: "nrows ?g = 3" "ncols ?g = 3" "arrangement ?g = []" by (simp_all add: GridSpec_init_def)
  have h1: "slice_indices (Some 0) (Some 2) None (nrows ?g) = Inr (0, 2, 1)"
    by (simp add: slice_indices_def n)
  have h2: "slice_indices (Some 1) (Some 3) None (ncols ?g) = Inr (1, 3, 1)"
    by (simp add: slice_indices_def n)
  from setitem_slices_zip[OF h1 h2, of "[[PInt 10, PInt 11], [PInt 20]]"]
  obtain g' where
    A: "GridSpec_setitem ?g (Slice (Some 0) (Some 2) None, Slice (Some 1) (Some 3) None)
            (PList (map PList [[PInt 10, PInt 11], [PInt 20]])) = Inr g'"
    and B: "\<forall>r c. map_of (arrangement g') (r, c) =
              (if \<exists>i. 0 \<le> i \<and> i < min (2 - 0) (3 - 1) \<and> r = 0 + i \<and> c = 1 + i
               then Some (if nat (r - 0) < length [[PInt 10, PInt 11], [PInt 20]] \<and>
                             nat (c - 1) < length ([[PInt 10, PInt 11], [PInt 20]] ! nat (r - 0))
                          then [[PInt 10, PInt 11], [PInt 20]] ! nat (r - 0) ! nat (c - 1) else PNone)
               else map_of (arrangement ?g) (r, c))"
    by blast
  have b1: "map_of (arrangement g') (0, 1) = Some (PInt 10)"
    using B[rule_format, of 0 1] by simp
  have e: "\<exists>i::int. 0 \<le> i \<and> i < 2 \<and> 1 = i" by (rule exI[of _ 1]) simp
  have b2: "map_of (arrangement g') (1, 2) = Some PNone"
    using B[rule_format, of 1 2] e by simp
  have b3: "map_of (arrangement g') (0, 2) = None"
    using B[rule_format, of 0 2] n by simp
  have b4: "map_of (arrangement g') (1, 1) = None"
    using B[rule_format, of 1 1] n by simp
  show ?thesis using h1 h2 A b1 b2 b3 b4 n by auto
qed

text \<open>
  Claim C1. For every valid nested list and every sizing mode, \<^verbatim>\<open>layout\<close> returns a tree
  (the same for the positional and the keyword form) whose leaves are exactly the
  input's layout objects in left-to-right order; every node of the tree, generated
  container or leaf object, carries the sizing mode; no other object is changed.
\<close>

theorem layout_leaves_and_sizing:
  "\<exists>t s'. layout [to_py (Nest ns)] PNone mode s = Inr (t, s') \<and>
          layout [] (to_py (Nest ns)) mode s = Inr (t, s') \<and>
          tree_refs t = leaves (Nest ns) \<and>
          nodes_sized mode s' t \<and>
          (\<forall>r. r \<notin> set (leaves (Nest ns)) \<longrightarrow> s' r = s r)"
proof -
  let ?t = "alternating 0 mode (Nest ns)" and ?s' = "set_modes (leaves (Nest ns)) mode s"
  have 1: "layout [to_py (Nest ns)] PNone mode s = Inr (?t, ?s')" by (rule layout_nested)
  have 2: "layout [] (to_py (Nest ns)) mode s = Inr (?t, ?s')" by (rule layout_nested)
  have 3: "tree_refs ?t = leaves (Nest ns)" by (rule tree_refs_alternating)
  have 4: "nodes_sized mode ?s' ?t" by (rule nodes_sized_alternating) simp
  have 5: "\<forall>r. r \<notin> set (leaves (Nest ns)) \<longrightarrow> ?s' r = s r" by (simp add: set_modes_def)
  show ?thesis using 1 2 3 4 5 by blast
qed

theorem layout_leaves_and_sizing_witness:
  "\<exists>t s'. layout [PList [PList [PDom (Obj 1), PDom (Obj 2)], PList [PDom (Obj 3)]]] PNone
              (Some ''fixed'') (\<lambda>r. blank) = Inr (t, s') \<and>
          tree_refs t = [1, 2, 3] \<and> sizing_mode (s' 2) = Some ''fixed'' \<and> s' 4 = blank"
proof -
  from layout_leaves_and_sizing[of "[Nest [Leaf 1, Leaf 2], Nest [Leaf 3]]" "Some ''fixed''" "\<lambda>r. blank"]
  obtain t s' where
    A: "layout [to_py (Nest [Nest [Leaf 1, Leaf 2], Nest [Leaf 3]])] PNone (Some ''fixed'') (\<lambda>r. blank) = Inr (t, s')"
       "tree_refs t = leaves (Nest [Nest [Leaf 1, Leaf 2], Nest [Leaf 3]])"
       "nodes_sized (Some ''fixed'') s' t"
       "\<forall>r. r \<notin> set (leaves (Nest [Nest [Leaf 1, Leaf 2], Nest [Leaf 3]])) \<longrightarrow> s' r = blank"
    by blast
  have t: "t = alternating 0 (Some ''fixed'') (Nest [Nest [Leaf 1, Leaf 2], Nest [Leaf 3]])"
    using A(1) layout_nested(1)[of "[Nest [Leaf 1, Leaf 2], Nest [Leaf 3]]" "Some ''fixed''" "\<lambda>r. blank"]
    by simp
  have "sizing_mode (s' 2) = Some ''fixed''" using A(3) unfolding t by simp
  moreover have "s' 4 = blank" using A(4) by simp
  ultimately show ?thesis using A(1,2) by simp
qed

text \<open>
  Claim C4. For every valid nested list, the tree \<^verbatim>\<open>layout\<close> returns wraps each list at
  even nesting depth (the top level is depth 0) in a column and each list at odd depth
  in a row; a two-level list gives a column of rows.
\<close>

theorem layout_alternates:
  "\<exists>s'. layout [to_py (Nest ns)] PNone mode s = Inr (alternating 0 mode (Nest ns), s')"
  using layout_nested(1)[of ns mode s] by blast

theorem layout_alternates_witness:
  "\<exists>s'. layout [PList [PList [PDom (Obj 1), PDom (Obj 2)], PList [PDom (Obj 3)]]] PNone
           (Some ''fixed'') (\<lambda>r. blank) =
         Inr (Column [Row [Obj 1, Obj 2] (Some ''fixed''), Row [Obj 3] (Some ''fixed'')]
                (Some ''fixed''), s')"
  using layout_alternates[of "[Nest [Leaf 1, Leaf 2], Nest [Leaf 3]]" "Some ''fixed''" "\<lambda>r. blank"]
  by simp

text \<open>
  Claim C9. \<^verbatim>\<open>row\<close>, \<^verbatim>\<open>column\<close> and \<^verbatim>\<open>layout\<close> raise \<^verbatim>\<open>ValueError\<close> when positional
  children and a \<^verbatim>\<open>children\<close> keyword other than \<^verbatim>\<open>None\<close> are given together. With one
  form only, the normalizer returns the children in order: the keyword's list, the
  single positional list, or the list of the positional arguments; \<^verbatim>\<open>row\<close> and
  \<^verbatim>\<open>column\<close> build the same container from each form.
\<close>

theorem children_forms:
  "(args \<noteq> [] \<and> children \<noteq> PNone \<longrightarrow>
      row args children mode =
        Inl (ValueError ''children keyword cannot be used with positional arguments'') \<and>
      column args children mode =
        Inl (ValueError ''children keyword cannot be used with positional arguments'') \<and>
      layout args children mode s =
        Inl (ValueError ''children keyword cannot be used with positional arguments'')) \<and>
   handle_children [] (PList xs) = Inr (PList xs) \<and>
   handle_children [PList xs] PNone = Inr (PList xs) \<and>
   (\<not> lone_iterable args \<longrightarrow> handle_children args PNone = Inr (PList args)) \<and>
   row [] (PList (map PDom ds)) mode = Inr (Row ds mode) \<and>
   row [PList (map PDom ds)] PNone mode = Inr (Row ds mode) \<and>
   row (map PDom ds) PNone mode = Inr (Row ds mode) \<and>
   column [] (PList (map PDom ds)) mode = Inr (Column ds mode) \<and>
   column [PList (map PDom ds)] PNone mode = Inr (Column ds mode) \<and>
   column (map PDom ds) PNone mode = Inr (Column ds mode)"
proof -
  have 1: "args \<noteq> [] \<and> children \<noteq> PNone \<longrightarrow>
      row args children mode =
        Inl (ValueError ''children keyword cannot be used with positional arguments'') \<and>
      column args children mode =
        Inl (ValueError ''children keyword cannot be used with positional arguments'') \<and>
      layout args children mode s =
        Inl (ValueError ''children keyword cannot be used with positional arguments'')"
    by (simp add: row_def column_def layout_def handle_children_conflict)
  have 2: "\<not> lone_iterable args \<longrightarrow> handle_children args PNone = Inr (PList args)"
    by (simp add: handle_children_positional)
  show ?thesis
    using 1 2 handle_children_keyword_list[of xs] handle_children_single_list[of xs]
      row_of_LayoutDOM[of ds mode] row_single_list[of ds mode] row_positional[of ds mode]
      column_of_LayoutDOM[of ds mode] column_single_list[of ds mode] column_positional[of ds mode]
    by blast
qed

theorem children_forms_witness:
  "row [PDom (Obj 1)] (PList [PDom (Obj 2)]) None =
     Inl (ValueError ''children keyword cannot be used with positional arguments'') \<and>
   layout [PDom (Obj 1)] (PList [PDom (Obj 2)]) None (\<lambda>r. blank) =
     Inl (ValueError ''children keyword cannot be used with positional arguments'') \<and>
   handle_children [PDom (Obj 1), PDom (Obj 2)] PNone = Inr (PList [PDom (Obj 1), PDom (Obj 2)]) \<and>
   handle_children [] (PList [PDom (Obj 1), PDom (Obj 2)]) = Inr (PList [PDom (Obj 1), PDom (Obj 2)])"
  using children_forms[of "[PDom (Obj 1)]" "PList [PDom (Obj 2)]" None "\<lambda>r. blank"
                          "[PDom (Obj 1), PDom (Obj 2)]" "[]"]
        children_forms[of "[PDom (Obj 1), PDom (Obj 2)]" PNone None "\<lambda>r. blank" "[]" "[]"]
  by (simp add: lone_iterable_def)

text \<open>
  Claim C2. For every grid of plots and every valid toolbar location, \<^verbatim>\<open>gridplot\<close> with
  \<^verbatim>\<open>merge_tools=True\<close> returns a layout with exactly one toolbar; its tool list is the
  concatenation of the tools of all descendant plots, so its length is the sum of the
  plots' tool counts; and after the call every descendant plot has
  \<^verbatim>\<open>toolbar_location = None\<close>.
\<close>

theorem gridplot_merge_tools:
  assumes "Location_has loc"
  shows "\<exists>t s'. gridplot (grid_to_py g) mode (Some loc) None w h opts True s = Inr (PDom t, s') \<and>
           toolbars t = [ProxyToolbar (merged_tools s (descendant_plots s g))
                           (case opts of None \<Rightarrow> [] | Some d \<Rightarrow> d)] \<and>
           length (merged_tools s (descendant_plots s g)) =
             sum_list (map (\<lambda>p. length (toolbar_tools (s p))) (descendant_plots s g)) \<and>
           (\<forall>p \<in> set (descendant_plots s g). toolbar_location (s' p) = None)"
proof -
  let ?tls = "merged_tools s (descendant_plots s g)"
  let ?opts = "case opts of None \<Rightarrow> [] | Some d \<Rightarrow> d"
  from gridplot_merge_result[OF assms, of g mode w h opts s] obtain s' where
    A: "gridplot (grid_to_py g) mode (Some loc) None w h opts True s =
           Inr (wrap_grid ?tls (grid_items 0 g) mode (Some loc) ?opts True, s')"
       "detached (descendant_plots s g) s s'"
    by blast
  from toolbars_wrap_grid[OF assms, of ?tls g mode ?opts] obtain t where
    T: "wrap_grid ?tls (grid_items 0 g) mode (Some loc) ?opts True = PDom t"
       "toolbars t = [ProxyToolbar ?tls ?opts]"
    by blast
  have len: "length ?tls = sum_list (map (\<lambda>p. length (toolbar_tools (s p))) (descendant_plots s g))"
    by (simp add: merged_tools_def length_concat comp_def)
  have det: "\<forall>p \<in> set (descendant_plots s g). toolbar_location (s' p) = None"
    using A(2) by (simp add: detached_def)
  show ?thesis using A(1) T len det by auto
qed

theorem gridplot_merge_tools_witness:
  "Location_has ''above'' \<and>
   (\<exists>t s'. gridplot (PList [PList [PDom (Obj 1), PNone], PList [PDom (Obj 2)]]) None
              (Some ''above'') None None None None True two_plots = Inr (PDom t, s') \<and>
            toolbars t = [ProxyToolbar [''pan'', ''zoom'', ''save''] []] \<and>
            toolbar_location (s' 1) = None \<and> toolbar_location (s' 2) = None)"
proof -
  have L: "Location_has ''above''" by (simp add: Location_has_def)
  have dp: "descendant_plots two_plots [[Some 1, None], [Some 2]] = [1, 2]"
    by (simp add: descendant_plots_def row_plots_def two_plots_def plot_obj_def)
  have mt: "merged_tools two_plots [1, 2] = [''pan'', ''zoom'', ''save'']"
    by (simp add: merged_tools_def two_plots_def plot_obj_def)
  have gp: "grid_to_py [[Some 1, None], [Some 2]] =
              PList [PList [PDom (Obj 1), PNone], PList [PDom (Obj 2)]]"
    by (simp add: grid_to_py_def)
  from gridplot_merge_tools[OF L, of "[[Some 1, None], [Some 2]]" None None None None two_plots]
  show ?thesis using L unfolding dp mt gp by auto
qed

text \<open>
  Claim C7. For every grid of layout objects, \<^verbatim>\<open>gridplot\<close> with \<^verbatim>\<open>merge_tools=True\<close>
  returns a column of toolbar and grid for \<^verbatim>\<open>above\<close>, of grid and toolbar for
  \<^verbatim>\<open>below\<close>, a row of toolbar and grid for \<^verbatim>\<open>left\<close>, of grid and toolbar for
  \<^verbatim>\<open>right\<close>, where the toolbar holds the merged tools of the grid's plots and the grid
  holds the grid's items at their positions; without a toolbar location or with
  \<^verbatim>\<open>merge_tools=False\<close> it returns that grid alone, carrying the sizing mode. The result
  of every other call that returns has the same arrangement.
\<close>

theorem gridplot_wrapping:
  "(\<exists>s'. gridplot (grid_to_py g) mode (Some ''above'') None w h opts True s =
      Inr (PDom (Column [ToolbarBox (ProxyToolbar (merged_tools s (descendant_plots s g))
                                       (case opts of None \<Rightarrow> [] | Some d \<Rightarrow> d)) ''above'' None,
                         GridBox (grid_items 0 g) None] mode), s')) \<and>
   (\<exists>s'. gridplot (grid_to_py g) mode (Some ''below'') None w h opts True s =
      Inr (PDom (Column [GridBox (grid_items 0 g) None,
                         ToolbarBox (ProxyToolbar (merged_tools s (descendant_plots s g))
                                       (case opts of None \<Rightarrow> [] | Some d \<Rightarrow> d)) ''below'' None]
                   mode), s')) \<and>
   (\<exists>s'. gridplot (grid_to_py g) mode (Some ''left'') None w h opts True s =
      Inr (PDom (Row [ToolbarBox (ProxyToolbar (merged_tools s (descendant_plots s g))
                                    (case opts of None \<Rightarrow> [] | Some d \<Rightarrow> d)) ''left'' None,
                      GridBox (grid_items 0 g) None] mode), s')) \<and>
   (\<exists>s'. gridplot (grid_to_py g) mode (Some ''right'') None w h opts True s =
      Inr (PDom (Row [GridBox (grid_items 0 g) None,
                      ToolbarBox (ProxyToolbar (merged_tools s (descendant_plots s g))
                                    (case opts of None \<Rightarrow> [] | Some d \<Rightarrow> d)) ''right'' None]
                   mode), s')) \<and>
   (\<exists>s'. gridplot (grid_to_py g) mode None None w h opts merge_tools s =
      Inr (PDom (GridBox (grid_items 0 g) mode), s')) \<and>
   (valid_location loc \<longrightarrow>
      (\<exists>s'. gridplot (grid_to_py g) mode loc None w h opts False s =
         Inr (PDom (GridBox (grid_items 0 g) mode), s'))) \<and>
   (\<forall>children n_cols res s'.
      gridplot children mode loc n_cols w h opts merge_tools s = Inr (res, s') \<longrightarrow>
        (merge_tools \<and> loc = Some ''above'' \<longrightarrow>
           (\<exists>p items. res = PDom (Column [ToolbarBox p ''above'' None, GridBox items None] mode))) \<and>
        (merge_tools \<and> loc = Some ''below'' \<longrightarrow>
           (\<exists>p items. res = PDom (Column [GridBox items None, ToolbarBox p ''below'' None] mode))) \<and>
        (merge_tools \<and> loc = Some ''left'' \<longrightarrow>
           (\<exists>p items. res = PDom (Row [ToolbarBox p ''left'' None, GridBox items None] mode))) \<and>
        (merge_tools \<and> loc = Some ''right'' \<longrightarrow>
           (\<exists>p items. res = PDom (Row [GridBox items None, ToolbarBox p ''right'' None] mode))) \<and>
        (\<not> merge_tools \<or> loc = None \<longrightarrow> (\<exists>items. res = PDom (GridBox items mode))))"
proof -
  let ?T = "merged_tools s (descendant_plots s g)"
  let ?O = "case opts of None \<Rightarrow> [] | Some d \<Rightarrow> d"
  have above: "\<exists>s'. gridplot (grid_to_py g) mode (Some ''above'') None w h opts True s =
      Inr (PDom (Column [ToolbarBox (ProxyToolbar ?T ?O) ''above'' None,
                         GridBox (grid_items 0 g) None] mode), s')"
    using gridplot_toolbar_result[of "''above''" g mode w h opts s]
    by (simp add: Location_has_def wrap_grid_def Let_def)
  have below: "\<exists>s'. gridplot (grid_to_py g) mode (Some ''below'') None w h opts True s =
      Inr (PDom (Column [GridBox (grid_items 0 g) None,
                         ToolbarBox (ProxyToolbar ?T ?O) ''below'' None] mode), s')"
    using gridplot_toolbar_result[of "''below''" g mode w h opts s]
    by (simp add: Location_has_def wrap_grid_def Let_def)
  have left: "\<exists>s'. gridplot (grid_to_py g) mode (Some ''left'') None w h opts True s =
      Inr (PDom (Row [ToolbarBox (ProxyToolbar ?T ?O) ''left'' None,
                      GridBox (grid_items 0 g) None] mode), s')"
    using gridplot_toolbar_result[of "''left''" g mode w h opts s]
    by (simp add: Location_has_def wrap_grid_def Let_def)
  have right: "\<exists>s'. gridplot (grid_to_py g) mode (Some ''right'') None w h opts True s =
      Inr (PDom (Row [GridBox (grid_items 0 g) None,
                      ToolbarBox (ProxyToolbar ?T ?O) ''right'' None] mode), s')"
    using gridplot_toolbar_result[of "''right''" g mode w h opts s]
    by (simp add: Location_has_def wrap_grid_def Let_def)
  have none: "\<exists>s'. gridplot (grid_to_py g) mode None None w h opts merge_tools s =
      Inr (PDom (GridBox (grid_items 0 g) mode), s')"
    by (rule gridplot_bare_grid) simp
  have nomerge: "valid_location loc \<longrightarrow>
      (\<exists>s'. gridplot (grid_to_py g) mode loc None w h opts False s =
         Inr (PDom (GridBox (grid_items 0 g) mode), s'))"
    using gridplot_bare_grid[of loc False g mode w h opts s] by simp
  have shape: "\<forall>children n_cols res s'.
      gridplot children mode loc n_cols w h opts merge_tools s = Inr (res, s') \<longrightarrow>
        (merge_tools \<and> loc = Some ''above'' \<longrightarrow>
           (\<exists>p items. res = PDom (Column [ToolbarBox p ''above'' None, GridBox items None] mode))) \<and>
        (merge_tools \<and> loc = Some ''below'' \<longrightarrow>
           (\<exists>p items. res = PDom (Column [GridBox items None, ToolbarBox p ''below'' None] mode))) \<and>
        (merge_tools \<and> loc = Some ''left'' \<longrightarrow>
           (\<exists>p items. res = PDom (Row [ToolbarBox p ''left'' None, GridBox items None] mode))) \<and>
        (merge_tools \<and> loc = Some ''right'' \<longrightarrow>
           (\<exists>p items. res = PDom (Row [GridBox items None, ToolbarBox p ''right'' None] mode))) \<and>
        (\<not> merge_tools \<or> loc = None \<longrightarrow> (\<exists>items. res = PDom (GridBox items mode)))"
  proof (intro allI impI)
    fix children n_cols res s'
    assume a: "gridplot children mode loc n_cols w h opts merge_tools s = Inr (res, s')"
    from gridplot_result_wrap[OF a] obtain tls items where
      R: "res = wrap_grid tls items mode loc (case opts of None \<Rightarrow> [] | Some d \<Rightarrow> d) merge_tools"
      by blast
    show "(merge_tools \<and> loc = Some ''above'' \<longrightarrow>
           (\<exists>p items. res = PDom (Column [ToolbarBox p ''above'' None, GridBox items None] mode))) \<and>
        (merge_tools \<and> loc = Some ''below'' \<longrightarrow>
           (\<exists>p items. res = PDom (Column [GridBox items None, ToolbarBox p ''below'' None] mode))) \<and>
        (merge_tools \<and> loc = Some ''left'' \<longrightarrow>
           (\<exists>p items. res = PDom (Row [ToolbarBox p ''left'' None, GridBox items None] mode))) \<and>
        (merge_tools \<and> loc = Some ''right'' \<longrightarrow>
           (\<exists>p items. res = PDom (Row [GridBox items None, ToolbarBox p ''right'' None] mode))) \<and>
        (\<not> merge_tools \<or> loc = None \<longrightarrow> (\<exists>items. res = PDom (GridBox items mode)))"
      unfolding R by (auto simp: wrap_grid_def Let_def split: option.splits)
  qed
  show ?thesis using above below left right none nomerge shape by blast
qed

theorem gridplot_wrapping_witness:
  "valid_location (Some ''right'') \<and>
   (\<exists>s'. gridplot (PList [PList [PDom (Obj 1), PNone], PList [PDom (Obj 2)]]) (Some ''fixed'')
            (Some ''left'') None None None None True two_plots =
          Inr (PDom (Row [ToolbarBox (ProxyToolbar [''pan'', ''zoom'', ''save''] []) ''left'' None,
                          GridBox [(Obj 1, 0, 0), (Obj 2, 1, 0)] None] (Some ''fixed'')), s')) \<and>
   (\<exists>s'. gridplot (PList [PList [PDom (Obj 1), PNone], PList [PDom (Obj 2)]]) (Some ''fixed'')
            (Some ''right'') None None None None False two_plots =
          Inr (PDom (GridBox [(Obj 1, 0, 0), (Obj 2, 1, 0)] (Some ''fixed'')), s'))"
proof -
  have L: "valid_location (Some ''right'')" by (simp add: valid_location_def Location_has_def)
  have gp: "grid_to_py [[Some 1, None], [Some 2]] =
              PList [PList [PDom (Obj 1), PNone], PList [PDom (Obj 2)]]"
    by (simp add: grid_to_py_def)
  have dp: "descendant_plots two_plots [[Some 1, None], [Some 2]] = [1, 2]"
    by (simp add: descendant_plots_def row_plots_def two_plots_def plot_obj_def)
  have mt: "merged_tools two_plots [1, 2] = [''pan'', ''zoom'', ''save'']"
    by (simp add: merged_tools_def two_plots_def plot_obj_def)
  have gi: "grid_items 0 [[Some 1, None], [Some 2]] = [(Obj 1, 0, 0), (Obj 2, 1, 0)]"
    by simp
  note W = gridplot_wrapping[of "[[Some 1, None], [Some 2]]" "Some ''fixed''" None None None
              two_plots False "Some ''right''"]
  show ?thesis using W L unfolding gp dp mt gi by simp
qed

text \<open>
  Claim C8. A \<^verbatim>\<open>gridplot\<close> call with a non-zero \<^verbatim>\<open>ncols\<close> and a children list that
  contains a nested list raises \<^verbatim>\<open>ValueError\<close>: the nested-list error, unless the toolbar
  location was already rejected by the earlier check.
\<close>

theorem gridplot_ncols_nested:
  assumes "n \<noteq> 0" and "list_ex is_list xs"
  shows "gridplot (PList xs) mode loc (Some n) w h opts merge_tools s =
           Inl (ValueError
                 (if (case loc of None \<Rightarrow> False | Some l \<Rightarrow> l \<noteq> [] \<and> \<not> Location_has l)
                  then ''Invalid value of toolbar_location''
                  else ''Cannot provide a nested list when using ncols''))"
proof -
  have ne: "xs \<noteq> []" using assms(2) by auto
  have hc: "handle_children [] (PList xs) = Inr (PList xs)"
    using ne by (simp add: handle_children_def)
  have an: "apply_ncols (PList xs) (Some n) =
              Inl (ValueError ''Cannot provide a nested list when using ncols'')"
    using assms by (simp add: apply_ncols_def py_iter_def)
  show ?thesis by (simp add: gridplot_def hc an Let_def)
qed

theorem gridplot_ncols_nested_witness:
  "(2::int) \<noteq> 0 \<and> list_ex is_list [PDom (Obj 1), PList [PDom (Obj 2)]] \<and>
   gridplot (PList [PDom (Obj 1), PList [PDom (Obj 2)]]) None (Some ''above'') (Some 2)
       None None None True two_plots =
     Inl (ValueError ''Cannot provide a nested list when using ncols'')"
proof -
  have a: "(2::int) \<noteq> 0" by simp
  have b: "list_ex is_list [PDom (Obj 1), PList [PDom (Obj 2)]]" by simp
  from gridplot_ncols_nested[OF a b, of None "Some ''above''" None None None True two_plots]
  show ?thesis using a b by (simp add: Location_has_def)
qed

end
